theory Spec2Isabelle
  imports Main
begin

section \<open>JavaScript values and text\<close>

text \<open>
  Strings are the UTF-8 bytes of the JavaScript string (well-formed text is assumed).
  \<open>undefined\<close> is \<open>None\<close> of an option.

  A Number is a double, and no arithmetic on doubles is modelled: the program only prints
  the numbers it is given and tests them for truth.  A number is therefore represented by
  the text \<open>Number.prototype.toString\<close> prints for it (\<open>100\<close>, \<open>1.5\<close>, \<open>-7\<close>,
  \<open>1e+21\<close>), which is also what \<open>JSON.stringify\<close> prints for a finite number; both
  zeros print as \<open>0\<close>, and JSON has no other falsy number.
\<close>

datatype number = Number (Number_toString: string)

datatype json =
    JNull
  | JBool bool
  | JNum number
  | JStr string
  | JArr "json list"
  | JObj "(string \<times> json) list"

text \<open>An exception object: its \<open>name\<close>, \<open>message\<close> and \<open>stack\<close> properties.\<close>

record js_error =
  err_name :: string
  err_message :: string
  err_stack :: string

definition hex_digit_upper :: "nat \<Rightarrow> char" where
  "hex_digit_upper n = ''0123456789ABCDEF'' ! (n mod 16)"

definition hex_digit_lower :: "nat \<Rightarrow> char" where
  "hex_digit_lower n = ''0123456789abcdef'' ! (n mod 16)"

definition digit_char :: "nat \<Rightarrow> char" where
  "digit_char n = ''0123456789'' ! (n mod 10)"

fun nat_toString :: "nat \<Rightarrow> string" where
  "nat_toString n = (if n < 10 then [digit_char n] else nat_toString (n div 10) @ [digit_char n])"

declare nat_toString.simps [simp del]

text \<open>A number that is a count (a length, an HTTP status): a small natural number.\<close>

definition Number_of_nat :: "nat \<Rightarrow> number" where
  "Number_of_nat n = Number (nat_toString n)"

definition bool_toString :: "bool \<Rightarrow> string" where
  "bool_toString b = (if b then ''true'' else ''false'')"

text \<open>A template literal prints an absent value as the text \<open>undefined\<close>.\<close>

definition template_string :: "string option \<Rightarrow> string" where
  "template_string v = (case v of None \<Rightarrow> ''undefined'' | Some s \<Rightarrow> s)"

fun join :: "string \<Rightarrow> string list \<Rightarrow> string" where
  "join sep [] = []"
| "join sep [x] = x"
| "join sep (x # y # ys) = x @ sep @ join sep (y # ys)"

subsection \<open>JSON.stringify\<close>

definition quote_char :: "char \<Rightarrow> string" where
  "quote_char c =
     (if c = CHR 0x22 then [CHR 0x5C, CHR 0x22]
      else if c = CHR 0x5C then [CHR 0x5C, CHR 0x5C]
      else if c = CHR 0x08 then [CHR 0x5C, CHR ''b'']
      else if c = CHR 0x0C then [CHR 0x5C, CHR ''f'']
      else if c = CHR 0x0A then [CHR 0x5C, CHR ''n'']
      else if c = CHR 0x0D then [CHR 0x5C, CHR ''r'']
      else if c = CHR 0x09 then [CHR 0x5C, CHR ''t'']
      else if (of_char c :: nat) < 32
        then [CHR 0x5C, CHR ''u'', CHR ''0'', CHR ''0'',
              hex_digit_lower (of_char c div 16), hex_digit_lower (of_char c)]
      else [c])"

definition quote :: "string \<Rightarrow> string" where
  "quote s = [CHR 0x22] @ concat (map quote_char s) @ [CHR 0x22]"

fun JSON_stringify :: "json \<Rightarrow> string" where
  "JSON_stringify JNull = ''null''"
| "JSON_stringify (JBool b) = bool_toString b"
| "JSON_stringify (JNum n) = Number_toString n"
| "JSON_stringify (JStr s) = quote s"
| "JSON_stringify (JArr xs) = ''['' @ join '','' (map JSON_stringify xs) @ '']''"
| "JSON_stringify (JObj kvs) =
     ''{'' @ join '','' (map (\<lambda>(k, v). quote k @ '':'' @ JSON_stringify v) kvs) @ ''}''"

subsection \<open>Conversions the program applies to decoded values\<close>

text \<open>\<open>ToBoolean\<close>: what \<open>||\<close> and \<open>if\<close> test.\<close>

fun truthy :: "json \<Rightarrow> bool" where
  "truthy JNull = False"
| "truthy (JBool b) = b"
| "truthy (JNum n) = (Number_toString n \<noteq> ''0'')"
| "truthy (JStr s) = (s \<noteq> [])"
| "truthy (JArr xs) = True"
| "truthy (JObj kvs) = True"

definition truthy_opt :: "json option \<Rightarrow> bool" where
  "truthy_opt v = (case v of None \<Rightarrow> False | Some j \<Rightarrow> truthy j)"

text \<open>\<open>ToString\<close>, as a template literal applies it to a decoded value.\<close>

fun ToString :: "json \<Rightarrow> string" where
  "ToString JNull = ''null''"
| "ToString (JBool b) = bool_toString b"
| "ToString (JNum n) = Number_toString n"
| "ToString (JStr s) = s"
| "ToString (JArr xs) = join '','' (map (\<lambda>x. if x = JNull then [] else ToString x) xs)"
| "ToString (JObj kvs) = ''[object Object]''"

definition TypeError :: "string \<Rightarrow> string \<Rightarrow> js_error" where
  "TypeError msg stack = \<lparr>err_name = ''TypeError'', err_message = msg, err_stack = stack\<rparr>"

text \<open>
  The \<open>length\<close> of a string counts UTF-16 code units: of the UTF-8 bytes, a continuation
  byte counts nothing, the first byte of a four-byte sequence counts two, any other one.
\<close>

definition utf16_units :: "char \<Rightarrow> nat" where
  "utf16_units c =
     (if 128 \<le> (of_char c :: nat) \<and> (of_char c :: nat) < 192 then 0
      else if 240 \<le> (of_char c :: nat) then 2 else 1)"

definition string_length :: "string \<Rightarrow> nat" where
  "string_length s = sum_list (map utf16_units s)"

text \<open>
  Reading property \<open>k\<close> of a decoded value (\<open>v.k\<close>), for the property names this
  program reads: \<open>null\<close> has no properties and the read throws a TypeError; an object
  yields its entry or \<open>undefined\<close>; strings and arrays have a \<open>length\<close>.
  \<open>stack\<close> is the stack text the engine attaches to the TypeError.
\<close>

fun get_prop :: "string \<Rightarrow> json \<Rightarrow> string \<Rightarrow> js_error + json option" where
  "get_prop stack JNull k =
     Inl (TypeError (''Cannot read properties of null (reading '' @ [CHR 0x27] @ k @ [CHR 0x27] @ '')'') stack)"
| "get_prop stack (JObj kvs) k = Inr (map_of kvs k)"
| "get_prop stack (JStr s) k =
     Inr (if k = ''length'' then Some (JNum (Number_of_nat (string_length s))) else None)"
| "get_prop stack (JArr xs) k =
     Inr (if k = ''length'' then Some (JNum (Number_of_nat (length xs))) else None)"
| "get_prop stack v k = Inr None"

text \<open>Optional chaining \<open>v?.k\<close> on a value that may be \<open>undefined\<close> or \<open>null\<close>.\<close>

definition opt_chain :: "string \<Rightarrow> json option \<Rightarrow> string \<Rightarrow> json option" where
  "opt_chain stack v k =
     (case v of None \<Rightarrow> None | Some JNull \<Rightarrow> None
      | Some j \<Rightarrow> (case get_prop stack j k of Inl e \<Rightarrow> None | Inr r \<Rightarrow> r))"

section \<open>The platform's URL type\<close>

text \<open>
  Both tools build \<open>new URL(`${baseUrl}/v1/...`)\<close> with the constant
  \<open>baseUrl = 'https://script.googleapis.com'\<close>: the scheme and the host are literals of
  the program and the text after them starts with \<open>/\<close>, so the WHATWG parser always
  reaches its path state with that origin and cannot fail.  \<open>new_URL origin rest\<close>
  below is \<open>new URL(origin + '/' + rest)\<close> for such an origin: the parser from the
  path state on (path, query and fragment states of a special scheme).
\<close>

record url =
  url_origin :: string
  url_path :: "string list"
  url_query :: "string option"
  url_fragment :: "string option"

definition char_between :: "char \<Rightarrow> char \<Rightarrow> char \<Rightarrow> bool" where
  "char_between lo hi c \<longleftrightarrow> (of_char lo :: nat) \<le> of_char c \<and> (of_char c :: nat) \<le> of_char hi"

definition percent_encode_byte :: "char \<Rightarrow> string" where
  "percent_encode_byte c =
     [CHR ''%'', hex_digit_upper (of_char c div 16), hex_digit_upper (of_char c)]"

definition in_C0_control_set :: "char \<Rightarrow> bool" where
  "in_C0_control_set c \<longleftrightarrow> (of_char c :: nat) < 32 \<or> (of_char c :: nat) > 126"

definition in_fragment_set :: "char \<Rightarrow> bool" where
  "in_fragment_set c \<longleftrightarrow>
     in_C0_control_set c \<or> c \<in> {CHR '' '', CHR 0x22, CHR ''<'', CHR ''>'', CHR 0x60}"

definition in_query_set :: "char \<Rightarrow> bool" where
  "in_query_set c \<longleftrightarrow>
     in_C0_control_set c \<or> c \<in> {CHR '' '', CHR 0x22, CHR ''#'', CHR ''<'', CHR ''>''}"

definition in_special_query_set :: "char \<Rightarrow> bool" where
  "in_special_query_set c \<longleftrightarrow> in_query_set c \<or> c = CHR 0x27"

definition in_path_set :: "char \<Rightarrow> bool" where
  "in_path_set c \<longleftrightarrow>
     in_query_set c \<or> c \<in> {CHR ''?'', CHR ''^'', CHR 0x60, CHR ''{'', CHR ''}''}"

definition percent_encode :: "(char \<Rightarrow> bool) \<Rightarrow> string \<Rightarrow> string" where
  "percent_encode in_set s = concat (map (\<lambda>c. if in_set c then percent_encode_byte c else [c]) s)"

definition is_tab_or_newline :: "char \<Rightarrow> bool" where
  "is_tab_or_newline c \<longleftrightarrow> c \<in> {CHR 0x09, CHR 0x0A, CHR 0x0D}"

definition is_C0_or_space :: "char \<Rightarrow> bool" where
  "is_C0_or_space c \<longleftrightarrow> (of_char c :: nat) \<le> 32"

definition ascii_lower :: "char \<Rightarrow> char" where
  "ascii_lower c = (if char_between (CHR ''A'') (CHR ''Z'') c then char_of (of_char c + (32::nat)) else c)"

definition is_single_dot :: "string \<Rightarrow> bool" where
  "is_single_dot b \<longleftrightarrow> map ascii_lower b \<in> {''.'', ''%2e''}"

definition is_double_dot :: "string \<Rightarrow> bool" where
  "is_double_dot b \<longleftrightarrow> map ascii_lower b \<in> {''..'', ''.%2e'', ''%2e.'', ''%2e%2e''}"

text \<open>
  The end of a path segment: \<open>slash\<close> tells whether the segment was ended by \<open>/\<close> or
  \<open>\\<close> (otherwise by \<open>?\<close>, \<open>#\<close> or the end of the input).
\<close>

definition end_segment :: "string list \<Rightarrow> string \<Rightarrow> bool \<Rightarrow> string list" where
  "end_segment path buffer slash =
     (if is_double_dot buffer then (if slash then butlast path else butlast path @ [[]])
      else if is_single_dot buffer then (if slash then path else path @ [[]])
      else path @ [buffer])"

definition fragment_state :: "string \<Rightarrow> string" where
  "fragment_state s = percent_encode in_fragment_set s"

definition query_state :: "string \<Rightarrow> string list \<Rightarrow> string \<Rightarrow> url" where
  "query_state origin path s =
     \<lparr>url_origin = origin, url_path = path,
      url_query = Some (percent_encode in_special_query_set (takeWhile (\<lambda>c. c \<noteq> CHR ''#'') s)),
      url_fragment =
        (case dropWhile (\<lambda>c. c \<noteq> CHR ''#'') s of [] \<Rightarrow> None | c # f \<Rightarrow> Some (fragment_state f))\<rparr>"

fun path_state :: "string \<Rightarrow> string list \<Rightarrow> string \<Rightarrow> string \<Rightarrow> url" where
  "path_state origin path buffer [] =
     \<lparr>url_origin = origin, url_path = end_segment path buffer False,
      url_query = None, url_fragment = None\<rparr>"
| "path_state origin path buffer (c # cs) =
     (if c = CHR ''/'' \<or> c = CHR 0x5C then path_state origin (end_segment path buffer True) [] cs
      else if c = CHR ''?'' then query_state origin (end_segment path buffer False) cs
      else if c = CHR ''#'' then
        \<lparr>url_origin = origin, url_path = end_segment path buffer False, url_query = None,
         url_fragment = Some (fragment_state cs)\<rparr>
      else path_state origin path (buffer @ percent_encode in_path_set [c]) cs)"

definition strip_trailing :: "string \<Rightarrow> string" where
  "strip_trailing s = rev (dropWhile is_C0_or_space (rev s))"

definition new_URL :: "string \<Rightarrow> string \<Rightarrow> url" where
  "new_URL origin rest =
     path_state origin [] [] (filter (\<lambda>c. \<not> is_tab_or_newline c) (strip_trailing rest))"

definition pathname :: "url \<Rightarrow> string" where
  "pathname u = concat (map (\<lambda>s. ''/'' @ s) (url_path u))"

text \<open>\<open>url.toString()\<close>, and the URL a request is sent to (a fragment is never sent).\<close>

definition href :: "url \<Rightarrow> string" where
  "href u = url_origin u @ pathname u
     @ (case url_query u of None \<Rightarrow> [] | Some q \<Rightarrow> ''?'' @ q)
     @ (case url_fragment u of None \<Rightarrow> [] | Some f \<Rightarrow> ''#'' @ f)"

definition request_target :: "url \<Rightarrow> string" where
  "request_target u = pathname u @ (case url_query u of None \<Rightarrow> [] | Some q \<Rightarrow> ''?'' @ q)"

subsection \<open>URLSearchParams\<close>

definition is_urlencoded_safe :: "char \<Rightarrow> bool" where
  "is_urlencoded_safe c \<longleftrightarrow>
     (char_between (CHR ''a'') (CHR ''z'') c) \<or> (char_between (CHR ''A'') (CHR ''Z'') c) \<or>
     (char_between (CHR ''0'') (CHR ''9'') c) \<or> c \<in> {CHR ''*'', CHR ''-'', CHR ''.'', CHR ''_''}"

definition urlencode_byte :: "char \<Rightarrow> string" where
  "urlencode_byte c =
     (if c = CHR '' '' then ''+'' else if is_urlencoded_safe c then [c] else percent_encode_byte c)"

definition urlencode :: "string \<Rightarrow> string" where
  "urlencode s = concat (map urlencode_byte s)"

text \<open>\<open>params.toString()\<close>: the application/x-www-form-urlencoded serializer.\<close>

definition pair_toString :: "string \<times> string \<Rightarrow> string" where
  "pair_toString p = urlencode (fst p) @ ''='' @ urlencode (snd p)"

definition searchParams_toString :: "(string \<times> string) list \<Rightarrow> string" where
  "searchParams_toString ps = join ''&'' (map pair_toString ps)"

definition is_hex :: "char \<Rightarrow> bool" where
  "is_hex c \<longleftrightarrow> (char_between (CHR ''0'') (CHR ''9'') c) \<or> (char_between (CHR ''a'') (CHR ''f'') c)
     \<or> (char_between (CHR ''A'') (CHR ''F'') c)"

definition hex_value :: "char \<Rightarrow> nat" where
  "hex_value c =
     (if char_between (CHR ''0'') (CHR ''9'') c then of_char c - 48
      else if char_between (CHR ''a'') (CHR ''f'') c then of_char c - 87
      else of_char c - 55)"

fun percent_decode :: "string \<Rightarrow> string" where
  "percent_decode (c # h1 # h2 # cs) =
     (if c = CHR ''%'' \<and> is_hex h1 \<and> is_hex h2
      then char_of (16 * hex_value h1 + hex_value h2) # percent_decode cs
      else c # percent_decode (h1 # h2 # cs))"
| "percent_decode cs = cs"

fun split_on :: "char \<Rightarrow> string \<Rightarrow> string list" where
  "split_on d [] = [[]]"
| "split_on d (c # cs) =
     (if c = d then [] # split_on d cs
      else (case split_on d cs of [] \<Rightarrow> [[c]] | x # xs \<Rightarrow> (c # x) # xs))"

definition plus_to_space :: "char \<Rightarrow> char" where
  "plus_to_space c = (if c = CHR ''+'' then CHR '' '' else c)"

definition urldecode :: "string \<Rightarrow> string" where
  "urldecode s = percent_decode (map plus_to_space s)"

text \<open>The application/x-www-form-urlencoded parser, which fills \<open>url.searchParams\<close>.\<close>

definition parse_pair :: "string \<Rightarrow> string \<times> string" where
  "parse_pair piece =
     (urldecode (takeWhile (\<lambda>c. c \<noteq> CHR ''='') piece),
      urldecode (drop 1 (dropWhile (\<lambda>c. c \<noteq> CHR ''='') piece)))"

definition parse_urlencoded :: "string \<Rightarrow> (string \<times> string) list" where
  "parse_urlencoded s =
     map parse_pair (filter (\<lambda>piece. piece \<noteq> []) (split_on (CHR ''&'') s))"

definition searchParams :: "url \<Rightarrow> (string \<times> string) list" where
  "searchParams u = (case url_query u of None \<Rightarrow> [] | Some q \<Rightarrow> parse_urlencoded q)"

text \<open>
  \<open>url.searchParams.append(n, v)\<close> for each pair of \<open>ps\<close> in turn: the list grows and
  the URL's query becomes the serialization of the whole list.
\<close>

definition searchParams_append :: "url \<Rightarrow> (string \<times> string) list \<Rightarrow> url" where
  "searchParams_append u ps =
     (if ps = [] then u
      else u\<lparr>url_query := Some (searchParams_toString (searchParams u @ ps))\<rparr>)"

text \<open>
  The setter \<open>url.search = value\<close>: the empty text clears the query; otherwise a leading
  \<open>?\<close> is dropped and the rest goes through the parser's query state.
\<close>

definition set_search :: "url \<Rightarrow> string \<Rightarrow> url" where
  "set_search u v =
     (if v = [] then u\<lparr>url_query := None\<rparr>
      else u\<lparr>url_query := Some (percent_encode in_special_query_set
          (filter (\<lambda>c. \<not> is_tab_or_newline c) (if hd v = CHR ''?'' then tl v else v)))\<rparr>)"

section \<open>Tool arguments, requests, responses and the collaborators\<close>

text \<open>
  The argument object a tool is called with: each property is present or \<open>undefined\<close>,
  with the type its schema documents.  Each tool destructures the properties it names.
  (\<open>fields'\<close> is the property \<open>fields\<close>.)

  The object is decoded JSON and nothing checks it against the schema, so a property can
  also hold \<open>null\<close>.  That is modelled for \<open>prettyPrint\<close>, the property on which a tool
  calls a method before its \<open>try\<close> block: a destructuring default replaces \<open>undefined\<close>
  only, and \<open>null.toString()\<close> throws.  The other properties are undefined or of their
  documented type; no step outside a \<open>try\<close> block calls a method on one of them.
\<close>

datatype 'a arg = Undefined | Null | Given 'a

record args =
  scriptId :: "string option"
  functionName :: "string option"
  parameters :: "json list option"
  devMode :: "bool option"
  pageSize :: "number option"
  pageToken :: "string option"
  fields' :: "string option"
  alt :: "string option"
  key :: "string option"
  access_token :: "string option"
  oauth_token :: "string option"
  quotaUser :: "string option"
  prettyPrint :: "bool arg"

record request =
  req_method :: string
  req_url :: url
  req_headers :: "(string \<times> string) list"
  req_body :: "string option"

text \<open>
  A response; reading its body yields the text or fails with a fault.  The status text
  and the \<open>content-length\<close> header are read for the log only.
\<close>

record response =
  resp_status :: nat
  resp_statusText :: string
  resp_content_length :: "string option"
  resp_body :: "js_error + string"

text \<open>
  Everything outside the two tools: the OAuth helper's two functions, \<open>fetch\<close>,
  \<open>JSON.parse\<close>, the stack text the engine gives a new exception, and the clock
  (\<open>Date.now()\<close> when the call starts and in the \<open>catch\<close> block,
  \<open>new Date().toISOString()\<close>).  A rejected promise or a thrown exception is \<open>Inl\<close>.
  The logger is opaque and returns; what the model keeps of a logging call is the
  evaluation of its arguments, which can throw.
\<close>

record env =
  getAuthHeaders :: "js_error + (string \<times> string) list"
  getOAuthAccessToken :: "js_error + string"
  fetch :: "request \<Rightarrow> js_error + response"
  JSON_parse :: "string \<Rightarrow> js_error + json"
  engine_stack :: string
  Date_now_start :: int
  Date_now_catch :: int
  toISOString :: string

record error_details =
  details_message :: string
  details_stack :: string
  details_scriptId :: "string option"
  details_duration :: "int option"
  details_timestamp :: string
  details_errorType :: string

record raw_error =
  raw_name :: string
  raw_stack :: string

record envelope =
  error :: bool
  message :: string
  details :: error_details
  rawError :: raw_error

text \<open>What a tool returns: the decoded response body, or the error envelope.\<close>

datatype result = Data json | Envelope envelope

definition baseUrl :: string where
  "baseUrl = ''https://script.googleapis.com''"

definition ok :: "response \<Rightarrow> bool" where
  "ok r \<longleftrightarrow> 200 \<le> resp_status r \<and> resp_status r \<le> 299"

text \<open>\<open>await response.json()\<close>: read the body, then decode it.\<close>

definition response_json :: "env \<Rightarrow> response \<Rightarrow> js_error + json" where
  "response_json e r = (case resp_body r of Inl err \<Rightarrow> Inl err | Inr t \<Rightarrow> JSON_parse e t)"

text \<open>\<open>new Error(msg)\<close>.\<close>

definition new_Error :: "env \<Rightarrow> string \<Rightarrow> js_error" where
  "new_Error e msg = \<lparr>err_name = ''Error'', err_message = msg, err_stack = engine_stack e\<rparr>"

text \<open>\<open>obj[k] = v\<close> on a mapping of headers.\<close>

definition set_property :: "string \<Rightarrow> string \<Rightarrow> (string \<times> string) list \<Rightarrow> (string \<times> string) list" where
  "set_property k v kvs =
     (if k \<in> fst ` set kvs then map (\<lambda>(k', v'). if k' = k then (k', v) else (k', v')) kvs
      else kvs @ [(k, v)])"

text \<open>An object literal as \<open>JSON.stringify\<close> sees it: an \<open>undefined\<close> property is left out.\<close>

definition object_literal :: "(string \<times> json option) list \<Rightarrow> json" where
  "object_literal kvs =
     JObj (concat (map (\<lambda>(k, v). case v of None \<Rightarrow> [] | Some j \<Rightarrow> [(k, j)]) kvs))"

text \<open>\<open>if (v) params.append(name, v)\<close> for a string that may be absent.\<close>

definition append_if :: "string \<Rightarrow> string option \<Rightarrow> (string \<times> string) list" where
  "append_if n v = (case v of None \<Rightarrow> [] | Some s \<Rightarrow> if s = [] then [] else [(n, s)])"

text \<open>
  The destructuring default of \<open>prettyPrint = true\<close> (it replaces \<open>undefined\<close> only)
  and the method call \<open>prettyPrint.toString()\<close>.
\<close>

definition default_arg :: "'a \<Rightarrow> 'a arg \<Rightarrow> 'a arg" where
  "default_arg d v = (case v of Undefined \<Rightarrow> Given d | Null \<Rightarrow> Null | Given x \<Rightarrow> Given x)"

definition bool_arg_toString :: "string \<Rightarrow> bool arg \<Rightarrow> js_error + string" where
  "bool_arg_toString stack v =
     (case v of
        Given b \<Rightarrow> Inr (bool_toString b)
      | Null \<Rightarrow>
          Inl (TypeError (''Cannot read properties of null (reading '' @ [CHR 0x27] @
                          ''toString'' @ [CHR 0x27] @ '')'') stack)
      | Undefined \<Rightarrow>
          Inl (TypeError (''Cannot read properties of undefined (reading '' @ [CHR 0x27] @
                          ''toString'' @ [CHR 0x27] @ '')'') stack))"

text \<open>Sequencing of steps that may throw.\<close>

definition and_then :: "js_error + 'a \<Rightarrow> ('a \<Rightarrow> js_error + 'b) \<Rightarrow> js_error + 'b" where
  "and_then r f = (case r of Inl e \<Rightarrow> Inl e | Inr v \<Rightarrow> f v)"

text \<open>The \<open>catch\<close> block both tools share, up to the \<open>duration\<close> entry.\<close>

definition error_envelope :: "env \<Rightarrow> args \<Rightarrow> int option \<Rightarrow> js_error \<Rightarrow> envelope" where
  "error_envelope e a duration err =
     \<lparr>error = True,
      message = err_message err,
      details = \<lparr>details_message = err_message err,
                 details_stack = err_stack err,
                 details_scriptId = scriptId a,
                 details_duration = duration,
                 details_timestamp = toISOString e,
                 details_errorType = (if err_name err \<noteq> [] then err_name err else ''Unknown'')\<rparr>,
      rawError = \<lparr>raw_name = err_name err, raw_stack = err_stack err\<rparr>\<rparr>"

section \<open>The script-run tool (script-scripts-run.js)\<close>

text \<open>
  Lines 22 to 47 run before the \<open>try\<close> block.  Line 31,
  \<open>if (prettyPrint !== undefined) params.append('prettyPrint', prettyPrint.toString())\<close>,
  is the one step of them that can throw, so the parameter list and the URL are results
  that may be an exception.
\<close>

definition script_run_params :: "string \<Rightarrow> args \<Rightarrow> js_error + (string \<times> string) list" where
  "script_run_params stack a =
     (let alt' = (case alt a of None \<Rightarrow> ''json'' | Some v \<Rightarrow> v);
          prettyPrint' = default_arg True (prettyPrint a)
      in and_then
           (if prettyPrint' \<noteq> Undefined
            then and_then (bool_arg_toString stack prettyPrint') (\<lambda>s. Inr [(''prettyPrint'', s)])
            else Inr [])
           (\<lambda>pp. Inr (append_if ''fields'' (fields' a)
                      @ append_if ''alt'' (Some alt')
                      @ pp
                      @ append_if ''quotaUser'' (quotaUser a))))"

definition script_run_url :: "string \<Rightarrow> args \<Rightarrow> js_error + url" where
  "script_run_url stack a =
     and_then (script_run_params stack a) (\<lambda>params.
       Inr (set_search
              (new_URL baseUrl (''v1/scripts/'' @ template_string (scriptId a) @ '':run''))
              (searchParams_toString params)))"

definition script_run_requestBody :: "args \<Rightarrow> json" where
  "script_run_requestBody a =
     (let parameters' = (case parameters a of None \<Rightarrow> [] | Some ps \<Rightarrow> ps);
          devMode' = (case devMode a of None \<Rightarrow> True | Some b \<Rightarrow> b)
      in object_literal
           [(''function'', map_option JStr (functionName a)),
            (''parameters'', Some (JArr parameters')),
            (''devMode'', Some (JBool devMode'))])"

definition script_run_request :: "url \<Rightarrow> args \<Rightarrow> (string \<times> string) list \<Rightarrow> request" where
  "script_run_request u a headers =
     \<lparr>req_method = ''POST'',
      req_url = u,
      req_headers = set_property ''Content-Type'' ''application/json'' headers,
      req_body = Some (JSON_stringify (script_run_requestBody a))\<rparr>"

text \<open>
  The values the logger is handed after a successful call
  (\<open>!!data.response?.result\<close>, \<open>!!data.error\<close>, \<open>data.done\<close>, and the
  \<open>data.response?.executionMetadata?.log\<close> test): evaluating them can throw.
\<close>

definition script_run_log_fields :: "env \<Rightarrow> json \<Rightarrow> js_error + (bool \<times> bool \<times> json option \<times> bool)" where
  "script_run_log_fields e data =
     and_then (get_prop (engine_stack e) data ''response'') (\<lambda>response.
     and_then (get_prop (engine_stack e) data ''error'') (\<lambda>err.
     and_then (get_prop (engine_stack e) data ''done'') (\<lambda>done'.
     and_then (get_prop (engine_stack e) data ''response'') (\<lambda>response'.
       Inr (truthy_opt (opt_chain (engine_stack e) response ''result''),
            truthy_opt err, done',
            truthy_opt (opt_chain (engine_stack e)
              (opt_chain (engine_stack e) response' ''executionMetadata'') ''log''))))))"

text \<open>
  The body of the \<open>try\<close> block, for the URL built before it, with the requests handed
  to \<open>fetch\<close> on the way.
\<close>

definition script_run_try :: "url \<Rightarrow> args \<Rightarrow> env \<Rightarrow> request list \<times> (js_error + json)" where
  "script_run_try u a e =
     (case getAuthHeaders e of
        Inl err \<Rightarrow> ([], Inl err)
      | Inr headers \<Rightarrow>
          ([script_run_request u a headers],
           and_then (fetch e (script_run_request u a headers)) (\<lambda>response.
             if \<not> ok response then
               and_then (response_json e response) (\<lambda>errorData.
                 Inl (new_Error e (JSON_stringify errorData)))
             else
               and_then (response_json e response) (\<lambda>data.
               and_then (script_run_log_fields e data) (\<lambda>logged.
                 Inr data)))))"

text \<open>
  The tool: the requests it issued, and how the call completed (\<open>Inl\<close>: the promise
  is rejected; \<open>Inr\<close>: it is fulfilled with the value).  An exception of the lines
  before the \<open>try\<close> block rejects the promise; one inside it reaches the \<open>catch\<close> block.
\<close>

definition script_run_executeFunction :: "args \<Rightarrow> env \<Rightarrow> request list \<times> (js_error + result)" where
  "script_run_executeFunction a e =
     (case script_run_url (engine_stack e) a of
        Inl thrown \<Rightarrow> ([], Inl thrown)
      | Inr u \<Rightarrow>
          (case script_run_try u a e of
             (issued, Inr data) \<Rightarrow> (issued, Inr (Data data))
           | (issued, Inl err) \<Rightarrow> (issued, Inr (Envelope (error_envelope e a None err)))))"

section \<open>The versions-list tool (script-projects-versions-list.js)\<close>

text \<open>
  Here everything is inside the \<open>try\<close> block.  Line 36 is
  \<open>if (prettyPrint) url.searchParams.append('prettyPrint', prettyPrint.toString())\<close>:
  only \<open>true\<close> passes the test, so \<open>null\<close> is skipped and the method call cannot throw.
\<close>

definition versions_list_params :: "args \<Rightarrow> (string \<times> string) list" where
  "versions_list_params a =
     (let pageSize' = (case pageSize a of None \<Rightarrow> Number ''100'' | Some n \<Rightarrow> n);
          prettyPrint' = default_arg True (prettyPrint a)
      in [(''pageSize'', Number_toString pageSize')]
         @ append_if ''pageToken'' (pageToken a)
         @ append_if ''fields'' (fields' a)
         @ [(''alt'', ''json'')]
         @ append_if ''key'' (key a)
         @ (case prettyPrint' of
              Given b \<Rightarrow> if b then [(''prettyPrint'', bool_toString b)] else []
            | Null \<Rightarrow> []
            | Undefined \<Rightarrow> []))"

definition versions_list_url :: "args \<Rightarrow> url" where
  "versions_list_url a =
     searchParams_append
       (new_URL baseUrl (''v1/projects/'' @ template_string (scriptId a) @ ''/versions''))
       (versions_list_params a)"

definition versions_list_request :: "args \<Rightarrow> string \<Rightarrow> request" where
  "versions_list_request a token =
     \<lparr>req_method = ''GET'',
      req_url = versions_list_url a,
      req_headers = [(''Accept'', ''application/json''), (''Authorization'', ''Bearer '' @ token)],
      req_body = None\<rparr>"

text \<open>
  The message of the exception thrown on a response that is not ok:
  \<open>`API Error (${response.status}): ${errorData.error?.message || errorData.message || 'Unknown error'}`\<close>.
\<close>

definition api_error_message :: "env \<Rightarrow> nat \<Rightarrow> json \<Rightarrow> js_error + string" where
  "api_error_message e status errorData =
     and_then (get_prop (engine_stack e) errorData ''error'') (\<lambda>err.
       case opt_chain (engine_stack e) err ''message'' of
         Some m \<Rightarrow>
           if truthy m then Inr (''API Error ('' @ nat_toString status @ ''): '' @ ToString m)
           else and_then (get_prop (engine_stack e) errorData ''message'') (\<lambda>m'.
             Inr (''API Error ('' @ nat_toString status @ ''): '' @
               (case m' of Some v \<Rightarrow> if truthy v then ToString v else ''Unknown error''
                | None \<Rightarrow> ''Unknown error'')))
       | None \<Rightarrow>
           and_then (get_prop (engine_stack e) errorData ''message'') (\<lambda>m'.
             Inr (''API Error ('' @ nat_toString status @ ''): '' @
               (case m' of Some v \<Rightarrow> if truthy v then ToString v else ''Unknown error''
                | None \<Rightarrow> ''Unknown error''))))"

text \<open>\<open>data.versions?.length || 0\<close>, handed to the logger after a successful call.\<close>

definition versions_list_log_fields :: "env \<Rightarrow> json \<Rightarrow> js_error + json" where
  "versions_list_log_fields e data =
     and_then (get_prop (engine_stack e) data ''versions'') (\<lambda>versions.
       Inr (case opt_chain (engine_stack e) versions ''length'' of
              Some n \<Rightarrow> if truthy n then n else JNum (Number ''0'')
            | None \<Rightarrow> JNum (Number ''0'')))"

definition versions_list_try :: "args \<Rightarrow> env \<Rightarrow> request list \<times> (js_error + json)" where
  "versions_list_try a e =
     (case getOAuthAccessToken e of
        Inl err \<Rightarrow> ([], Inl err)
      | Inr token \<Rightarrow>
          ([versions_list_request a token],
           and_then (fetch e (versions_list_request a token)) (\<lambda>response.
             if \<not> ok response then
               and_then (resp_body response) (\<lambda>errorText.
                 let errorData = (case JSON_parse e errorText of
                                    Inr parsed \<Rightarrow> parsed
                                  | Inl parseError \<Rightarrow> JObj [(''message'', JStr errorText)])
                 in and_then (api_error_message e (resp_status response) errorData) (\<lambda>msg.
                      Inl (new_Error e msg)))
             else
               and_then (response_json e response) (\<lambda>data.
               and_then (versions_list_log_fields e data) (\<lambda>logged.
                 Inr data)))))"

definition versions_list_executeFunction :: "args \<Rightarrow> env \<Rightarrow> request list \<times> (js_error + result)" where
  "versions_list_executeFunction a e =
     (case versions_list_try a e of
        (issued, Inr data) \<Rightarrow> (issued, Inr (Data data))
      | (issued, Inl err) \<Rightarrow>
          (issued, Inr (Envelope (error_envelope e a
             (Some (Date_now_catch e - Date_now_start e)) err))))"

section \<open>Vocabulary of the properties\<close>

text \<open>
  The outcomes of the HTTP call that count as a failure: a network fault, a status
  outside 200..299, or a body that cannot be read and decoded as JSON.
\<close>

definition http_call_failed :: "env \<Rightarrow> request \<Rightarrow> bool" where
  "http_call_failed e req =
     (case fetch e req of
        Inl fault \<Rightarrow> True
      | Inr r \<Rightarrow> \<not> ok r \<or> (case response_json e r of Inl err \<Rightarrow> True | Inr d \<Rightarrow> False))"

definition script_run_failed :: "url \<Rightarrow> args \<Rightarrow> env \<Rightarrow> bool" where
  "script_run_failed u a e =
     (case getAuthHeaders e of
        Inl err \<Rightarrow> True
      | Inr headers \<Rightarrow> http_call_failed e (script_run_request u a headers))"

definition versions_list_failed :: "args \<Rightarrow> env \<Rightarrow> bool" where
  "versions_list_failed a e =
     (case getOAuthAccessToken e of
        Inl err \<Rightarrow> True
      | Inr token \<Rightarrow> http_call_failed e (versions_list_request a token))"

text \<open>The shape \<open>{error: true, message, details, rawError}\<close>.\<close>

definition is_error_envelope :: "result \<Rightarrow> bool" where
  "is_error_envelope r = (case r of Data d \<Rightarrow> False | Envelope v \<Rightarrow> error v)"

text \<open>What a completed call returned, and the \<open>message\<close> of a returned envelope.\<close>

definition returned :: "request list \<times> (js_error + result) \<Rightarrow> result option" where
  "returned c = (case snd c of Inl thrown \<Rightarrow> None | Inr v \<Rightarrow> Some v)"

definition returned_message :: "request list \<times> (js_error + result) \<Rightarrow> string option" where
  "returned_message c =
     (case snd c of Inr (Envelope v) \<Rightarrow> Some (message v) | Inr (Data d) \<Rightarrow> None | Inl thrown \<Rightarrow> None)"

text \<open>The paths of the requests a call issued.\<close>

definition issued_paths :: "request list \<times> (js_error + result) \<Rightarrow> string list" where
  "issued_paths c = map (\<lambda>r. pathname (req_url r)) (fst c)"

text \<open>The alphabet of script ids: letters, digits, \<open>-\<close> and \<open>_\<close>.\<close>

definition id_char :: "char \<Rightarrow> bool" where
  "id_char c \<longleftrightarrow>
     char_between (CHR ''a'') (CHR ''z'') c \<or> char_between (CHR ''A'') (CHR ''Z'') c \<or>
     char_between (CHR ''0'') (CHR ''9'') c \<or> c = CHR ''-'' \<or> c = CHR ''_''"

text \<open>A character the query state of the URL parser leaves as it is.\<close>

definition query_inert :: "char \<Rightarrow> bool" where
  "query_inert c \<longleftrightarrow> \<not> in_special_query_set c \<and> \<not> is_tab_or_newline c \<and> c \<noteq> CHR ''?''"

subsection \<open>Concrete calls\<close>

definition no_args :: args where
  "no_args =
     \<lparr>scriptId = None, functionName = None, parameters = None, devMode = None,
      pageSize = None, pageToken = None, fields' = None, alt = None, key = None,
      access_token = None, oauth_token = None, quotaUser = None, prettyPrint = Undefined\<rparr>"

definition round_trip_args :: args where
  "round_trip_args =
     no_args\<lparr>scriptId := Some ''X'', functionName := Some ''f'',
             parameters := Some [JNum (Number ''1''), JNum (Number ''2'')]\<rparr>"

text \<open>The URL the script-run tool builds for them.\<close>

definition round_trip_url :: url where
  "round_trip_url =
     \<lparr>url_origin = ''https://script.googleapis.com'',
      url_path = [''v1'', ''scripts'', ''X:run''],
      url_query = Some ''alt=json&prettyPrint=true'',
      url_fragment = None\<rparr>"

text \<open>A call that supplies the display options and all three authentication arguments.\<close>

definition display_args :: args where
  "display_args =
     no_args\<lparr>scriptId := Some ''X'', fields' := Some ''done'', key := Some ''AIza'',
             access_token := Some ''ya29.a'', oauth_token := Some ''ya29.b'',
             quotaUser := Some ''u1''\<rparr>"

definition sample_headers :: "(string \<times> string) list" where
  "sample_headers = [(''Authorization'', ''Bearer ya29.token'')]"

text \<open>\<open>JSON.parse\<close> on the texts the concrete calls use.\<close>

definition JSON_parse_sample :: "string \<Rightarrow> js_error + json" where
  "JSON_parse_sample t =
     (if t = ''null'' then Inr JNull
      else if t = ''{}'' then Inr (JObj [])
      else if t = [] then
        Inl \<lparr>err_name = ''SyntaxError'', err_message = ''Unexpected end of JSON input'',
             err_stack = ''SyntaxError: Unexpected end of JSON input''\<rparr>
      else
        Inl \<lparr>err_name = ''SyntaxError'', err_message = ''Unexpected token < in JSON at position 0'',
             err_stack = ''SyntaxError: Unexpected token < in JSON at position 0''\<rparr>)"

definition response_of :: "nat \<Rightarrow> string \<Rightarrow> response" where
  "response_of status body =
     \<lparr>resp_status = status, resp_statusText = [], resp_content_length = None,
      resp_body = Inr body\<rparr>"

text \<open>Collaborators that hand out credentials and answer every request with \<open>r\<close>.\<close>

definition env_with :: "response \<Rightarrow> env" where
  "env_with r =
     \<lparr>getAuthHeaders = Inr sample_headers,
      getOAuthAccessToken = Inr ''ya29.token'',
      fetch = (\<lambda>req. Inr r),
      JSON_parse = JSON_parse_sample,
      engine_stack = ''Error\<newline>    at executeFunction'',
      Date_now_start = 1000,
      Date_now_catch = 1250,
      toISOString = ''2025-01-01T00:00:00.000Z''\<rparr>"


section \<open>Lemmas about the platform model\<close>

subsection \<open>The serialized parameters pass the query state unchanged\<close>

lemma hex_digit_upper_inert: "query_inert (hex_digit_upper n)"
proof -
  have "\<forall>c\<in>set ''0123456789ABCDEF''. query_inert c"
    by (simp add: query_inert_def in_special_query_set_def in_query_set_def
      in_C0_control_set_def is_tab_or_newline_def)
  moreover have "''0123456789ABCDEF'' ! (n mod 16) \<in> set ''0123456789ABCDEF''"
    by (rule nth_mem) simp
  ultimately show ?thesis
    unfolding hex_digit_upper_def by blast
qed

lemma urlencoded_safe_inert: "is_urlencoded_safe c \<Longrightarrow> query_inert c"
  unfolding is_urlencoded_safe_def query_inert_def in_special_query_set_def in_query_set_def
      in_C0_control_set_def is_tab_or_newline_def char_between_def
  by auto

lemma urlencode_byte_inert: "c \<in> set (urlencode_byte b) \<Longrightarrow> query_inert c"
  unfolding urlencode_byte_def percent_encode_byte_def
  by (auto simp: hex_digit_upper_inert urlencoded_safe_inert split: if_splits)
     (simp_all add: query_inert_def in_special_query_set_def in_query_set_def
      in_C0_control_set_def is_tab_or_newline_def)

lemma urlencode_inert: "c \<in> set (urlencode s) \<Longrightarrow> query_inert c"
  unfolding urlencode_def by (auto dest: urlencode_byte_inert)

lemma join_set: "c \<in> set (join sep xs) \<Longrightarrow> c \<in> set sep \<or> (\<exists>x\<in>set xs. c \<in> set x)"
  by (induction sep xs rule: join.induct) auto

lemma toString_inert:
  assumes "c \<in> set (searchParams_toString ps)"
  shows "query_inert c"
proof -
  have sep: "query_inert (CHR ''&'')" "query_inert (CHR ''='')"
    by (simp_all add: query_inert_def in_special_query_set_def in_query_set_def
      in_C0_control_set_def is_tab_or_newline_def)
  from assms consider "c \<in> set ''&''"
    | n v where "(n, v) \<in> set ps" "c \<in> set (urlencode n @ ''='' @ urlencode v)"
    unfolding searchParams_toString_def pair_toString_def by (auto dest!: join_set)
  then show ?thesis
  proof cases
    case 1
    with sep show ?thesis by simp
  next
    case 2
    with sep show ?thesis by (auto dest: urlencode_inert)
  qed
qed

lemma inert_query_state:
  "\<forall>c\<in>set s. query_inert c \<Longrightarrow>
   percent_encode in_special_query_set (filter (\<lambda>c. \<not> is_tab_or_newline c) s) = s"
  unfolding percent_encode_def
  by (induction s) (auto simp: query_inert_def)

lemma join_nonempty: "xs \<noteq> [] \<Longrightarrow> \<forall>x\<in>set xs. x \<noteq> [] \<Longrightarrow> join sep xs \<noteq> []"
  by (induction sep xs rule: join.induct) auto

lemma toString_nonempty: "ps \<noteq> [] \<Longrightarrow> searchParams_toString ps \<noteq> []"
  unfolding searchParams_toString_def pair_toString_def
  by (rule join_nonempty) auto

lemma set_search_toString:
  assumes "ps \<noteq> []"
  shows "set_search u (searchParams_toString ps) = u\<lparr>url_query := Some (searchParams_toString ps)\<rparr>"
proof -
  let ?v = "searchParams_toString ps"
  have ne: "?v \<noteq> []" using assms by (rule toString_nonempty)
  have inert: "\<forall>c\<in>set ?v. query_inert c" by (auto dest: toString_inert)
  from ne have "hd ?v \<in> set ?v" by simp
  with inert have "hd ?v \<noteq> CHR ''?''" by (auto simp: query_inert_def)
  with ne inert show ?thesis
    by (simp add: set_search_def inert_query_state)
qed

subsection \<open>Parsing a serialized parameter list gives the list back\<close>

lemma percent_decode_plain: "c \<noteq> CHR ''%'' \<Longrightarrow> percent_decode (c # cs) = c # percent_decode cs"
proof (cases cs)
  case Nil
  then show ?thesis by simp
next
  case (Cons h1 cs')
  then show "c \<noteq> CHR ''%'' \<Longrightarrow> ?thesis" by (cases cs') simp_all
qed

lemma hex_digit_upper_value:
  "is_hex (hex_digit_upper n) \<and> hex_value (hex_digit_upper n) = n mod 16 \<and> hex_digit_upper n \<noteq> CHR ''+''"
proof -
  have "\<forall>i<16. is_hex (''0123456789ABCDEF'' ! i) \<and> hex_value (''0123456789ABCDEF'' ! i) = i
      \<and> ''0123456789ABCDEF'' ! i \<noteq> CHR ''+''"
    by (simp add: eval_nat_numeral less_Suc_eq is_hex_def hex_value_def char_between_def)
  moreover have "n mod 16 < 16" by simp
  ultimately show ?thesis unfolding hex_digit_upper_def by blast
qed

lemma of_char_split: "16 * ((of_char c :: nat) div 16 mod 16) + of_char c mod 16 = of_char c"
proof -
  have "(of_char c :: nat) < 256" by (rule nat_of_char_less_256)
  then have "(of_char c :: nat) div 16 < 16" by arith
  then show ?thesis by simp
qed

lemma percent_decode_encoded:
  "percent_decode (percent_encode_byte c @ rest) = c # percent_decode rest"
  unfolding percent_encode_byte_def
  by (simp add: hex_digit_upper_value of_char_split)

lemma urlencoded_safe_plain:
  "is_urlencoded_safe c \<Longrightarrow> c \<noteq> CHR ''%'' \<and> c \<noteq> CHR ''+'' \<and> c \<noteq> CHR ''='' \<and> c \<noteq> CHR ''&''"
  unfolding is_urlencoded_safe_def char_between_def by auto

lemma decode_urlencode_byte:
  "percent_decode (map plus_to_space (urlencode_byte c) @ rest) = c # percent_decode rest"
proof -
  consider "c = CHR '' ''" | "c \<noteq> CHR '' ''" "is_urlencoded_safe c"
    | "c \<noteq> CHR '' ''" "\<not> is_urlencoded_safe c"
    by blast
  then show ?thesis
  proof cases
    case 1
    then show ?thesis by (simp add: urlencode_byte_def plus_to_space_def percent_decode_plain)
  next
    case 2
    with urlencoded_safe_plain[of c] show ?thesis
      by (simp add: urlencode_byte_def plus_to_space_def percent_decode_plain)
  next
    case 3
    have "map plus_to_space (percent_encode_byte c) = percent_encode_byte c"
      by (simp add: percent_encode_byte_def plus_to_space_def hex_digit_upper_value)
    with 3 show ?thesis
      by (simp add: urlencode_byte_def percent_decode_encoded)
  qed
qed

lemma urldecode_urlencode: "urldecode (urlencode s) = s"
proof -
  have "percent_decode (map plus_to_space (urlencode s)) = s"
  proof (induction s)
    case Nil
    then show ?case by (simp add: urlencode_def)
  next
    case (Cons c s)
    then show ?case
      using decode_urlencode_byte[of c "map plus_to_space (urlencode s)"]
      by (simp add: urlencode_def)
  qed
  then show ?thesis by (simp add: urldecode_def)
qed

lemma urlencode_no_separator:
  assumes "c \<in> set (urlencode s)"
  shows "c \<noteq> CHR ''='' \<and> c \<noteq> CHR ''&''"
proof -
  have hex: "hex_digit_upper n \<noteq> CHR ''='' \<and> hex_digit_upper n \<noteq> CHR ''&''" for n
    using hex_digit_upper_value[of n] by (auto simp: is_hex_def char_between_def)
  from assms obtain b where "c \<in> set (urlencode_byte b)"
    unfolding urlencode_def by auto
  then show ?thesis
    using urlencoded_safe_plain[of b] hex
    by (auto simp: urlencode_byte_def percent_encode_byte_def split: if_splits)
qed

lemma split_on_plain: "d \<notin> set x \<Longrightarrow> split_on d x = [x]"
  by (induction x) auto

lemma split_on_append: "d \<notin> set x \<Longrightarrow> split_on d (x @ d # rest) = x # split_on d rest"
  by (induction x) auto

lemma split_on_join:
  "xs \<noteq> [] \<Longrightarrow> \<forall>x\<in>set xs. d \<notin> set x \<Longrightarrow> split_on d (join [d] xs) = xs"
proof (induction "[d]" xs rule: join.induct)
  case 1
  then show ?case by simp
next
  case (2 x)
  then show ?case by (simp add: split_on_plain)
next
  case (3 x y ys)
  then show ?case by (simp add: split_on_append)
qed

lemma pair_toString_shape: "pair_toString p \<noteq> []" "CHR ''&'' \<notin> set (pair_toString p)"
  unfolding pair_toString_def using urlencode_no_separator by auto

lemma parse_pair_toString: "parse_pair (pair_toString p) = p"
proof -
  have no: "\<And>c. c \<in> set (urlencode (fst p)) \<Longrightarrow> c \<noteq> CHR ''=''"
    using urlencode_no_separator by blast
  have "takeWhile (\<lambda>c. c \<noteq> CHR ''='') (pair_toString p) = urlencode (fst p)"
    unfolding pair_toString_def using no by (simp add: takeWhile_append2)
  moreover have "dropWhile (\<lambda>c. c \<noteq> CHR ''='') (pair_toString p) = ''='' @ urlencode (snd p)"
    unfolding pair_toString_def using no by (simp add: dropWhile_append2)
  ultimately show ?thesis
    by (simp add: parse_pair_def urldecode_urlencode)
qed

lemma parse_urlencoded_toString: "parse_urlencoded (searchParams_toString ps) = ps"
proof (cases "ps = []")
  case True
  then show ?thesis by (simp add: parse_urlencoded_def searchParams_toString_def)
next
  case False
  have "split_on (CHR ''&'') (join ''&'' (map pair_toString ps)) = map pair_toString ps"
    using False pair_toString_shape(2) by (intro split_on_join) auto
  moreover have "filter (\<lambda>piece. piece \<noteq> []) (map pair_toString ps) = map pair_toString ps"
    using pair_toString_shape(1) by (simp add: filter_map o_def)
  ultimately show ?thesis
    unfolding parse_urlencoded_def searchParams_toString_def
    by (simp add: o_def parse_pair_toString)
qed

subsection \<open>The path state on a script id\<close>

lemma id_char_path:
  "id_char c \<Longrightarrow> c \<noteq> CHR ''/'' \<and> c \<noteq> CHR 0x5C \<and> c \<noteq> CHR ''?'' \<and> c \<noteq> CHR ''#'' \<and>
     \<not> in_path_set c \<and> \<not> is_tab_or_newline c \<and> c \<noteq> CHR ''.'' \<and> c \<noteq> CHR ''%''"
  unfolding id_char_def in_path_set_def in_query_set_def in_C0_control_set_def
    is_tab_or_newline_def char_between_def
  by auto

lemma path_state_id_chars:
  "\<forall>c\<in>set s. id_char c \<Longrightarrow> path_state orig p buf (s @ rest) = path_state orig p (buf @ s) rest"
proof (induction s arbitrary: buf)
  case Nil
  then show ?case by simp
next
  case (Cons c s)
  then have c: "id_char c" and s: "\<forall>c\<in>set s. id_char c" by auto
  from id_char_path[OF c] Cons.IH[OF s, of "buf @ [c]"] show ?case
    by (simp add: percent_encode_def)
qed

lemma id_char_lower: "id_char c \<Longrightarrow> ascii_lower c \<noteq> CHR ''.'' \<and> ascii_lower c \<noteq> CHR ''%''"
  unfolding id_char_def ascii_lower_def char_between_def
  by (auto simp: char_of_eq_iff take_bit_eq_mod)

lemma id_chars_not_dot:
  assumes "\<forall>c\<in>set s. id_char c"
  shows "\<not> is_single_dot s" and "\<not> is_double_dot s"
proof -
  have "map ascii_lower s \<noteq> x" if "x \<noteq> []" "hd x = CHR ''.'' \<or> hd x = CHR ''%''" for x
  proof
    assume eq: "map ascii_lower s = x"
    with that have "s \<noteq> []" by auto
    then obtain c cs where s: "s = c # cs" by (cases s) auto
    with assms have "id_char c" by simp
    from id_char_lower[OF this] eq s that show False by auto
  qed
  then show "\<not> is_single_dot s" and "\<not> is_double_dot s"
    unfolding is_single_dot_def is_double_dot_def by auto
qed

lemma strip_trailing_versions: "strip_trailing (x @ ''/versions'') = x @ ''/versions''"
  by (simp add: strip_trailing_def is_C0_or_space_def)

lemma filter_id_chars: "\<forall>c\<in>set s. id_char c \<Longrightarrow> filter (\<lambda>c. \<not> is_tab_or_newline c) s = s"
  by (induction s) (auto dest: id_char_path)

lemma new_URL_versions:
  assumes "\<forall>c\<in>set sid. id_char c"
  shows "new_URL orig (''v1/projects/'' @ sid @ ''/versions'') =
     \<lparr>url_origin = orig, url_path = [''v1'', ''projects'', sid, ''versions''],
      url_query = None, url_fragment = None\<rparr>"
proof -
  have walk: "path_state orig [''v1'', ''projects''] [] (sid @ ''/versions'') =
      path_state orig [''v1'', ''projects''] sid ''/versions''"
    using path_state_id_chars[OF assms, of orig "[''v1'', ''projects'']" "[]" "''/versions''"]
    by simp
  have pre: "path_state orig [] [] (''v1/projects/'' @ rest) =
      path_state orig [''v1'', ''projects''] [] rest" for rest
    by (simp add: percent_encode_def in_path_set_def in_query_set_def in_C0_control_set_def
        end_segment_def is_double_dot_def is_single_dot_def ascii_lower_def char_between_def)
  have post: "path_state orig [''v1'', ''projects''] sid ''/versions'' =
     \<lparr>url_origin = orig, url_path = [''v1'', ''projects'', sid, ''versions''],
      url_query = None, url_fragment = None\<rparr>"
    using id_chars_not_dot[OF assms]
    by (simp add: percent_encode_def in_path_set_def in_query_set_def in_C0_control_set_def
        end_segment_def is_double_dot_def is_single_dot_def ascii_lower_def char_between_def)
  have "filter (\<lambda>c. \<not> is_tab_or_newline c) (strip_trailing (''v1/projects/'' @ sid @ ''/versions''))
      = ''v1/projects/'' @ sid @ ''/versions''"
    using strip_trailing_versions[of "''v1/projects/'' @ sid"] filter_id_chars[OF assms]
    by (simp add: is_tab_or_newline_def)
  then show ?thesis
    unfolding new_URL_def using pre[of "sid @ ''/versions''"] walk post by simp
qed

section \<open>Lemmas about the two tools\<close>

text \<open>Line 31 of the script-run tool throws on \<open>null\<close>, and on nothing else.\<close>

lemma script_run_params_value:
  "prettyPrint a \<noteq> Null \<Longrightarrow>
   script_run_params st a =
     Inr (append_if ''fields'' (fields' a)
          @ append_if ''alt'' (Some (case alt a of None \<Rightarrow> ''json'' | Some v \<Rightarrow> v))
          @ [(''prettyPrint'', bool_toString (case prettyPrint a of Given b \<Rightarrow> b | Null \<Rightarrow> True
                                                | Undefined \<Rightarrow> True))]
          @ append_if ''quotaUser'' (quotaUser a))"
  by (cases "prettyPrint a")
     (simp_all add: script_run_params_def default_arg_def bool_arg_toString_def and_then_def)

lemma script_run_params_null:
  "prettyPrint a = Null \<Longrightarrow>
   script_run_params st a =
     Inl (TypeError (''Cannot read properties of null (reading '' @ [CHR 0x27] @
                     ''toString'' @ [CHR 0x27] @ '')'') st)"
  by (simp add: script_run_params_def default_arg_def bool_arg_toString_def and_then_def)

lemma script_run_params_Inr:
  assumes "script_run_params st a = Inr ps"
  shows "prettyPrint a \<noteq> Null" and "ps \<noteq> []" and "script_run_params st' a = Inr ps"
proof -
  show nn: "prettyPrint a \<noteq> Null"
    using assms script_run_params_null[of a st] by auto
  from script_run_params_value[OF nn, of st] assms show "ps \<noteq> []" by auto
  from script_run_params_value[OF nn, of st] script_run_params_value[OF nn, of st'] assms
  show "script_run_params st' a = Inr ps" by simp
qed

lemma script_run_url_Inr:
  assumes "script_run_url st a = Inr u"
  shows "\<exists>ps. script_run_params st a = Inr ps \<and> ps \<noteq> [] \<and>
     u = (new_URL baseUrl (''v1/scripts/'' @ template_string (scriptId a) @ '':run''))
           \<lparr>url_query := Some (searchParams_toString ps)\<rparr>"
proof (cases "script_run_params st a")
  case (Inl err)
  with assms show ?thesis by (simp add: script_run_url_def and_then_def)
next
  case (Inr ps)
  then have "ps \<noteq> []" by (rule script_run_params_Inr(2))
  with assms Inr show ?thesis
    by (simp add: script_run_url_def and_then_def set_search_toString)
qed

lemma script_run_url_not_null:
  "prettyPrint a \<noteq> Null \<Longrightarrow> \<exists>u. script_run_url st a = Inr u"
  by (simp add: script_run_url_def and_then_def script_run_params_value)

lemma script_run_url_stack:
  "script_run_url st a = Inr u \<Longrightarrow> script_run_url st' a = Inr u"
  unfolding script_run_url_def and_then_def
  by (cases "script_run_params st a") (simp_all add: script_run_params_Inr(3)[of st a _ st'])

lemma script_run_url_searchParams:
  assumes "script_run_url st a = Inr u"
  shows "\<exists>ps. script_run_params st a = Inr ps \<and>
     url_query u = Some (searchParams_toString ps) \<and> searchParams u = ps"
proof -
  obtain ps where "script_run_params st a = Inr ps" and
    "u = (new_URL baseUrl (''v1/scripts/'' @ template_string (scriptId a) @ '':run''))
           \<lparr>url_query := Some (searchParams_toString ps)\<rparr>"
    using script_run_url_Inr[OF assms] by blast
  then show ?thesis
    by (simp add: searchParams_def parse_urlencoded_toString)
qed

lemma script_run_url_pathname:
  "script_run_url st a = Inr u \<Longrightarrow>
   pathname u = pathname (new_URL baseUrl (''v1/scripts/'' @ template_string (scriptId a) @ '':run''))"
  by (auto dest!: script_run_url_Inr simp: pathname_def)

lemma script_run_issued:
  "fst (script_run_executeFunction a e) =
     (case script_run_url (engine_stack e) a of
        Inl thrown \<Rightarrow> []
      | Inr u \<Rightarrow> (case getAuthHeaders e of Inl err \<Rightarrow> [] | Inr h \<Rightarrow> [script_run_request u a h]))"
  unfolding script_run_executeFunction_def script_run_try_def
  by (simp split: sum.splits)

lemma versions_list_issued:
  "fst (versions_list_executeFunction a e) =
     (case getOAuthAccessToken e of Inl err \<Rightarrow> [] | Inr t \<Rightarrow> [versions_list_request a t])"
  unfolding versions_list_executeFunction_def versions_list_try_def
  by (simp split: sum.splits)

lemma script_run_returned:
  "script_run_url (engine_stack e) a = Inr u \<Longrightarrow>
   snd (script_run_executeFunction a e) =
     (case snd (script_run_try u a e) of
        Inr data \<Rightarrow> Inr (Data data)
      | Inl err \<Rightarrow> Inr (Envelope (error_envelope e a None err)))"
  unfolding script_run_executeFunction_def
  by (simp split: prod.splits sum.splits)

lemma script_run_thrown:
  "script_run_url (engine_stack e) a = Inl thrown \<Longrightarrow>
   script_run_executeFunction a e = ([], Inl thrown)"
  unfolding script_run_executeFunction_def by simp

lemma versions_list_returned:
  "snd (versions_list_executeFunction a e) =
     (case snd (versions_list_try a e) of
        Inr data \<Rightarrow> Inr (Data data)
      | Inl err \<Rightarrow> Inr (Envelope (error_envelope e a
                        (Some (Date_now_catch e - Date_now_start e)) err)))"
  unfolding versions_list_executeFunction_def
  by (simp split: prod.splits sum.splits)

lemma script_run_try_failed:
  "script_run_failed u a e \<Longrightarrow> \<exists>err. snd (script_run_try u a e) = Inl err"
  unfolding script_run_failed_def script_run_try_def http_call_failed_def and_then_def
  by (auto split: sum.splits if_splits)

lemma versions_list_try_failed:
  "versions_list_failed a e \<Longrightarrow> \<exists>err. snd (versions_list_try a e) = Inl err"
  unfolding versions_list_failed_def versions_list_try_def http_call_failed_def and_then_def
    response_json_def
  by (auto split: sum.splits if_splits simp: Let_def)

text \<open>
  What does hold of the claim that no exception leaves a tool: the versions-list tool
  always returns, the script-run tool returns unless \<open>prettyPrint\<close> is \<open>null\<close>, and a failed
  call returns the envelope built from the caught exception.
\<close>

lemma versions_list_never_throws:
  "\<exists>v. snd (versions_list_executeFunction a e) = Inr v \<and>
        (versions_list_failed a e \<longrightarrow>
           is_error_envelope v \<and>
           (\<exists>err. v = Envelope (error_envelope e a
                               (Some (Date_now_catch e - Date_now_start e)) err)))"
proof -
  have shape: "is_error_envelope (Envelope (error_envelope e a d err))" for d err
    by (simp add: is_error_envelope_def error_envelope_def)
  show ?thesis
    using versions_list_try_failed[of a e] shape
    unfolding versions_list_returned
    by (auto split: sum.splits)
qed

lemma script_run_returns_unless_null:
  assumes "prettyPrint a \<noteq> Null"
  shows "\<exists>u v. script_run_url (engine_stack e) a = Inr u \<and>
        snd (script_run_executeFunction a e) = Inr v \<and>
        (script_run_failed u a e \<longrightarrow>
           is_error_envelope v \<and> (\<exists>err. v = Envelope (error_envelope e a None err)))"
proof -
  have shape: "is_error_envelope (Envelope (error_envelope e a d err))" for d err
    by (simp add: is_error_envelope_def error_envelope_def)
  obtain u where u: "script_run_url (engine_stack e) a = Inr u"
    using script_run_url_not_null[OF assms] by blast
  show ?thesis
    using script_run_try_failed[of u a e] shape u
    unfolding script_run_returned[OF u]
    by (auto split: sum.splits)
qed

lemma script_run_rejects_iff_null:
  "(\<exists>thrown. snd (script_run_executeFunction a e) = Inl thrown) \<longleftrightarrow> prettyPrint a = Null"
proof
  assume thrown: "\<exists>thrown. snd (script_run_executeFunction a e) = Inl thrown"
  show "prettyPrint a = Null"
  proof (rule ccontr)
    assume "prettyPrint a \<noteq> Null"
    then obtain v where "snd (script_run_executeFunction a e) = Inr v"
      using script_run_returns_unless_null[of a e] by blast
    with thrown show False by simp
  qed
next
  assume "prettyPrint a = Null"
  then show "\<exists>thrown. snd (script_run_executeFunction a e) = Inl thrown"
    by (simp add: script_run_executeFunction_def script_run_url_def and_then_def
        script_run_params_null)
qed

lemma versions_list_params_nonempty: "versions_list_params a \<noteq> []"
  by (simp add: versions_list_params_def Let_def)

lemma versions_list_searchParams:
  "searchParams (versions_list_url a) =
     searchParams (new_URL baseUrl (''v1/projects/'' @ template_string (scriptId a) @ ''/versions''))
       @ versions_list_params a"
  unfolding versions_list_url_def searchParams_append_def
  by (simp add: versions_list_params_nonempty searchParams_def parse_urlencoded_toString)

lemma pathname_searchParams_append: "pathname (searchParams_append u ps) = pathname u"
  by (simp add: searchParams_append_def pathname_def)

text \<open>The script-run tool takes nothing from \<open>key\<close>, \<open>access_token\<close> and \<open>oauth_token\<close>.\<close>

lemma params_ignore_auth:
  "script_run_params st (a\<lparr>key := k, access_token := t, oauth_token := ot\<rparr>) =
     script_run_params st a"
  by (simp add: script_run_params_def)

lemma url_ignore_auth:
  "script_run_url st (a\<lparr>key := k, access_token := t, oauth_token := ot\<rparr>) = script_run_url st a"
  by (simp add: script_run_url_def params_ignore_auth)

lemma body_ignore_auth:
  "script_run_requestBody (a\<lparr>key := k, access_token := t, oauth_token := ot\<rparr>) =
     script_run_requestBody a"
  by (simp add: script_run_requestBody_def)

lemma request_ignore_auth:
  "script_run_request u (a\<lparr>key := k, access_token := t, oauth_token := ot\<rparr>) h =
     script_run_request u a h"
  by (simp add: script_run_request_def body_ignore_auth)

lemma try_ignore_auth:
  "script_run_try u (a\<lparr>key := k, access_token := t, oauth_token := ot\<rparr>) e = script_run_try u a e"
  by (simp add: script_run_try_def request_ignore_auth split: sum.splits)

lemma envelope_ignore_auth:
  "error_envelope e (a\<lparr>key := k, access_token := t, oauth_token := ot\<rparr>) d err =
     error_envelope e a d err"
  by (simp add: error_envelope_def)

text \<open>What holds of the error and success paths, case by case.\<close>

lemma transport_fault_message:
  "script_run_url (engine_stack e) a = Inr u \<Longrightarrow> getAuthHeaders e = Inr h \<Longrightarrow>
   fetch e (script_run_request u a h) = Inl fault \<Longrightarrow>
     returned_message (script_run_executeFunction a e) = Some (err_message fault)"
  "getOAuthAccessToken e = Inr t \<Longrightarrow> fetch e (versions_list_request a t) = Inl fault \<Longrightarrow>
     returned_message (versions_list_executeFunction a e) = Some (err_message fault)"
  unfolding returned_message_def versions_list_returned
    script_run_try_def versions_list_try_def and_then_def error_envelope_def
  by (simp_all add: script_run_returned script_run_try_def and_then_def error_envelope_def)

lemma script_run_json_error_body:
  "script_run_url (engine_stack e) a = Inr u \<Longrightarrow> getAuthHeaders e = Inr h \<Longrightarrow>
   fetch e (script_run_request u a h) = Inr r \<Longrightarrow> \<not> ok r \<Longrightarrow>
   response_json e r = Inr errorData \<Longrightarrow>
     returned_message (script_run_executeFunction a e) = Some (JSON_stringify errorData)"
  unfolding returned_message_def
  by (simp add: script_run_returned script_run_try_def and_then_def error_envelope_def
      new_Error_def)

lemma script_run_undecodable_error_body:
  "script_run_url (engine_stack e) a = Inr u \<Longrightarrow> getAuthHeaders e = Inr h \<Longrightarrow>
   fetch e (script_run_request u a h) = Inr r \<Longrightarrow> \<not> ok r \<Longrightarrow>
   response_json e r = Inl parseError \<Longrightarrow>
     returned_message (script_run_executeFunction a e) = Some (err_message parseError)"
  unfolding returned_message_def
  by (simp add: script_run_returned script_run_try_def and_then_def error_envelope_def)

lemma get_prop_not_null: "data \<noteq> JNull \<Longrightarrow> \<exists>v. get_prop st data k = Inr v"
  by (cases data) simp_all

lemma api_error_message_form:
  assumes "errorData \<noteq> JNull"
  shows "\<exists>tail. api_error_message e status errorData =
     Inr (''API Error ('' @ nat_toString status @ ''): '' @ tail)"
proof -
  obtain err where err: "get_prop (engine_stack e) errorData ''error'' = Inr err"
    using get_prop_not_null[OF assms] by blast
  obtain m where m: "get_prop (engine_stack e) errorData ''message'' = Inr m"
    using get_prop_not_null[OF assms] by blast
  show ?thesis
    unfolding api_error_message_def and_then_def err m
    by (simp split: option.splits)
qed

lemma versions_list_json_error_body:
  assumes "getOAuthAccessToken e = Inr t" "fetch e (versions_list_request a t) = Inr r"
    "\<not> ok r" "resp_body r = Inr body" "JSON_parse e body = Inr errorData" "errorData \<noteq> JNull"
  shows "\<exists>tail. returned_message (versions_list_executeFunction a e) =
     Some (''API Error ('' @ nat_toString (resp_status r) @ ''): '' @ tail)"
proof -
  obtain tail where "api_error_message e (resp_status r) errorData =
      Inr (''API Error ('' @ nat_toString (resp_status r) @ ''): '' @ tail)"
    using api_error_message_form[OF assms(6)] by blast
  with assms show ?thesis
    unfolding returned_message_def versions_list_returned versions_list_try_def and_then_def
      error_envelope_def new_Error_def
    by (simp add: Let_def)
qed

lemma script_run_pass_through:
  assumes "script_run_url (engine_stack e) a = Inr u" "getAuthHeaders e = Inr h"
    "fetch e (script_run_request u a h) = Inr r" "ok r"
    "response_json e r = Inr data" "data \<noteq> JNull"
  shows "snd (script_run_executeFunction a e) = Inr (Data data)"
proof -
  have "\<exists>l. script_run_log_fields e data = Inr l"
    using get_prop_not_null[OF assms(6)]
    unfolding script_run_log_fields_def and_then_def
    by (metis (no_types, lifting) sum.case(2))
  with assms show ?thesis
    unfolding script_run_returned[OF assms(1)] script_run_try_def and_then_def
    by auto
qed

lemma null_body_is_not_passed_through:
  assumes "script_run_url (engine_stack e) a = Inr u" "getAuthHeaders e = Inr h"
    "fetch e (script_run_request u a h) = Inr r" "ok r" "response_json e r = Inr JNull"
  shows "\<exists>v. snd (script_run_executeFunction a e) = Inr (Envelope v)"
  using assms
  unfolding script_run_returned[OF assms(1)] script_run_try_def and_then_def
    script_run_log_fields_def
  by simp

lemma versions_list_pass_through:
  assumes "getOAuthAccessToken e = Inr t" "fetch e (versions_list_request a t) = Inr r" "ok r"
    "response_json e r = Inr data" "data \<noteq> JNull"
  shows "snd (versions_list_executeFunction a e) = Inr (Data data)"
proof -
  have "\<exists>l. versions_list_log_fields e data = Inr l"
    using get_prop_not_null[OF assms(5)]
    unfolding versions_list_log_fields_def and_then_def
    by (metis (no_types, lifting) sum.case(2))
  with assms show ?thesis
    unfolding versions_list_returned versions_list_try_def and_then_def
    by auto
qed

section \<open>The claims\<close>

text \<open>
  Claim C1 fails on the code.  The claim is that, for every input, no exception leaves a
  tool.  The script-run tool builds its query parameters before its \<open>try\<close> block, and
  line 31 calls \<open>prettyPrint.toString()\<close> on whatever is not \<open>undefined\<close>: with
  \<open>prettyPrint: null\<close> the TypeError is thrown outside the \<open>try\<close>, the promise is
  rejected and no request is issued.  The versions-list tool, which does all of this
  inside its \<open>try\<close> block, returns normally on the same arguments.
\<close>

theorem script_run_prettyPrint_null_throws:
  "script_run_executeFunction (round_trip_args\<lparr>prettyPrint := Null\<rparr>)
       (env_with (response_of 200 ''{}'')) =
     ([], Inl \<lparr>err_name = ''TypeError'',
              err_message = ''Cannot read properties of null (reading '' @ [CHR 0x27] @
                            ''toString'' @ [CHR 0x27] @ '')'',
              err_stack = engine_stack (env_with (response_of 200 ''{}''))\<rparr>) \<and>
   returned (versions_list_executeFunction (round_trip_args\<lparr>prettyPrint := Null\<rparr>)
       (env_with (response_of 200 ''{}''))) = Some (Data (JObj []))"
  by code_simp

text \<open>
  Claim C2, as amended.  Neither tool checks that its required fields are present.  A
  call without \<open>scriptId\<close>, once credentials are obtained, still issues its one request,
  and the path carries the text \<open>undefined\<close> where the id belongs (the script-run tool
  throws before that when \<open>prettyPrint\<close> is \<open>null\<close>).  A script-run call
  without \<open>functionName\<close> issues its request too: the body has no \<open>function\<close> entry,
  and the URL is the one the call has with a \<open>functionName\<close>.
\<close>

theorem missing_required_field_request:
  "(scriptId a = None \<and> prettyPrint a \<noteq> Null \<and> getAuthHeaders e = Inr h \<longrightarrow>
      issued_paths (script_run_executeFunction a e) = [''/v1/scripts/undefined:run'']) \<and>
   (scriptId a = None \<and> getOAuthAccessToken e = Inr t \<longrightarrow>
      issued_paths (versions_list_executeFunction a e) = [''/v1/projects/undefined/versions'']) \<and>
   (functionName a = None \<and> prettyPrint a \<noteq> Null \<and> getAuthHeaders e = Inr h \<longrightarrow>
      (\<exists>u. script_run_url (engine_stack e) a = Inr u \<and>
           fst (script_run_executeFunction a e) = [script_run_request u a h]) \<and>
      get_prop st (script_run_requestBody a) ''function'' = Inr None) \<and>
   script_run_url st (a\<lparr>functionName := f\<rparr>) = script_run_url st a"
proof -
  have p1: "pathname (new_URL baseUrl ''v1/scripts/undefined:run'') = ''/v1/scripts/undefined:run''"
    by code_simp
  have p2: "pathname (new_URL baseUrl ''v1/projects/undefined/versions'') =
      ''/v1/projects/undefined/versions''"
    by code_simp
  have c1: "scriptId a = None \<and> prettyPrint a \<noteq> Null \<and> getAuthHeaders e = Inr h \<longrightarrow>
      issued_paths (script_run_executeFunction a e) = [''/v1/scripts/undefined:run'']"
  proof (intro impI, elim conjE)
    assume h: "scriptId a = None" "prettyPrint a \<noteq> Null" "getAuthHeaders e = Inr h"
    obtain u where u: "script_run_url (engine_stack e) a = Inr u"
      using script_run_url_not_null[OF h(2)] by blast
    from script_run_url_pathname[OF u] h(1) p1
    have "pathname u = ''/v1/scripts/undefined:run''"
      by (simp add: template_string_def)
    with u h(3) show "issued_paths (script_run_executeFunction a e) = [''/v1/scripts/undefined:run'']"
      by (simp add: issued_paths_def script_run_issued script_run_request_def)
  qed
  have c2: "scriptId a = None \<and> getOAuthAccessToken e = Inr t \<longrightarrow>
      issued_paths (versions_list_executeFunction a e) = [''/v1/projects/undefined/versions'']"
    using p2
    by (simp add: issued_paths_def versions_list_issued versions_list_request_def
        versions_list_url_def pathname_searchParams_append template_string_def)
  have c3: "functionName a = None \<and> prettyPrint a \<noteq> Null \<and> getAuthHeaders e = Inr h \<longrightarrow>
      (\<exists>u. script_run_url (engine_stack e) a = Inr u \<and>
           fst (script_run_executeFunction a e) = [script_run_request u a h]) \<and>
      get_prop st (script_run_requestBody a) ''function'' = Inr None"
  proof (intro impI, elim conjE)
    assume h: "functionName a = None" "prettyPrint a \<noteq> Null" "getAuthHeaders e = Inr h"
    obtain u where u: "script_run_url (engine_stack e) a = Inr u"
      using script_run_url_not_null[OF h(2)] by blast
    with h show "(\<exists>u. script_run_url (engine_stack e) a = Inr u \<and>
           fst (script_run_executeFunction a e) = [script_run_request u a h]) \<and>
      get_prop st (script_run_requestBody a) ''function'' = Inr None"
      by (simp add: script_run_issued script_run_requestBody_def object_literal_def Let_def)
  qed
  have c4: "script_run_url st (a\<lparr>functionName := f\<rparr>) = script_run_url st a"
    by (simp add: script_run_url_def script_run_params_def)
  from c1 c2 c3 c4 show ?thesis by blast
qed

theorem missing_required_field_request_witness:
  "scriptId no_args = None \<and> functionName no_args = None \<and> prettyPrint no_args \<noteq> Null \<and>
   getAuthHeaders (env_with (response_of 200 ''{}'')) = Inr sample_headers \<and>
   getOAuthAccessToken (env_with (response_of 200 ''{}'')) = Inr ''ya29.token'' \<and>
   issued_paths (script_run_executeFunction no_args (env_with (response_of 200 ''{}''))) =
     [''/v1/scripts/undefined:run''] \<and>
   issued_paths (versions_list_executeFunction no_args (env_with (response_of 200 ''{}''))) =
     [''/v1/projects/undefined/versions''] \<and>
   (\<exists>u. fst (script_run_executeFunction no_args (env_with (response_of 200 ''{}''))) =
     [script_run_request u no_args sample_headers])"
proof -
  let ?e = "env_with (response_of 200 ''{}'')"
  have h: "scriptId no_args = None" "functionName no_args = None" "prettyPrint no_args \<noteq> Null"
    "getAuthHeaders ?e = Inr sample_headers" "getOAuthAccessToken ?e = Inr ''ya29.token''"
    by (simp_all add: no_args_def env_with_def)
  with missing_required_field_request[of no_args ?e sample_headers "''ya29.token''"]
  show ?thesis by blast
qed

text \<open>
  Claim C2 as stated fails: with no \<open>scriptId\<close> (and no \<open>functionName\<close>) both tools
  issue a request, to a path that names no script.
\<close>

theorem missing_required_field_counterexample:
  "scriptId no_args = None \<and>
   issued_paths (script_run_executeFunction no_args (env_with (response_of 200 ''{}''))) =
     [''/v1/scripts/undefined:run''] \<and>
   issued_paths (versions_list_executeFunction no_args (env_with (response_of 200 ''{}''))) =
     [''/v1/projects/undefined/versions'']"
  by code_simp

text \<open>
  Claim C3.  For \<open>scriptId = "X"\<close>, \<open>functionName = "f"\<close>, \<open>parameters = [1, 2]\<close> and
  nothing else, the request the script-run tool builds and issues is a POST to the path
  \<open>/v1/scripts/X:run\<close> whose body is the JSON text of
  \<open>{function: "f", parameters: [1, 2], devMode: true}\<close>.
\<close>

theorem script_run_round_trip:
  \<open>script_run_url st round_trip_args = Inr round_trip_url \<and>
   req_method (script_run_request round_trip_url round_trip_args h) = ''POST'' \<and>
   pathname (req_url (script_run_request round_trip_url round_trip_args h)) = ''/v1/scripts/X:run'' \<and>
   script_run_requestBody round_trip_args =
     JObj [(''function'', JStr ''f''), (''parameters'', JArr [JNum (Number ''1''), JNum (Number ''2'')]),
           (''devMode'', JBool True)] \<and>
   req_body (script_run_request round_trip_url round_trip_args h) =
     Some ''{"function":"f","parameters":[1,2],"devMode":true}'' \<and>
   fst (script_run_executeFunction round_trip_args e) =
     (case getAuthHeaders e of
        Inl err \<Rightarrow> []
      | Inr hs \<Rightarrow> [script_run_request round_trip_url round_trip_args hs])\<close>
proof -
  have "script_run_url [] round_trip_args = Inr round_trip_url"
    by code_simp
  then have u: "script_run_url s round_trip_args = Inr round_trip_url" for s
    by (rule script_run_url_stack)
  have p: "pathname round_trip_url = ''/v1/scripts/X:run''"
    by code_simp
  have b: "script_run_requestBody round_trip_args =
     JObj [(''function'', JStr ''f''), (''parameters'', JArr [JNum (Number ''1''), JNum (Number ''2'')]),
           (''devMode'', JBool True)]"
    by code_simp
  have t: \<open>JSON_stringify (script_run_requestBody round_trip_args) =
      ''{"function":"f","parameters":[1,2],"devMode":true}''\<close>
    by code_simp
  from u p b t show ?thesis
    by (simp add: script_run_request_def script_run_issued)
qed

text \<open>
  Claim C4 fails on the code.  The script-run tool decodes the body of a response that is
  not ok with \<open>response.json()\<close> and nothing guards the decoding (the versions-list tool
  falls back to the raw text): on a 502 whose body is an HTML page the envelope's message
  is the JSON parser's complaint, and neither the status nor the remote text is in it.
\<close>

theorem script_run_non_json_error_body:
  "\<not> ok (response_of 502 ''<html>Bad Gateway</html>'') \<and>
   returned_message (script_run_executeFunction round_trip_args
       (env_with (response_of 502 ''<html>Bad Gateway</html>''))) =
     Some ''Unexpected token < in JSON at position 0''"
  by code_simp

text \<open>
  Claim C5 fails on the code.  After decoding a successful response both tools read
  properties of the decoded value for the logger before returning it; on the JSON body
  \<open>null\<close> that read throws, and the caller gets an error envelope instead of \<open>null\<close>.
\<close>

theorem null_body_not_passed_through:
  "ok (response_of 200 ''null'') \<and>
   response_json (env_with (response_of 200 ''null'')) (response_of 200 ''null'') = Inr JNull \<and>
   returned (script_run_executeFunction round_trip_args (env_with (response_of 200 ''null''))) \<noteq>
     Some (Data JNull) \<and>
   returned_message (script_run_executeFunction round_trip_args (env_with (response_of 200 ''null''))) =
     Some (''Cannot read properties of null (reading '' @ [CHR 0x27] @ ''response'' @ [CHR 0x27] @ '')'') \<and>
   returned_message (versions_list_executeFunction round_trip_args (env_with (response_of 200 ''null''))) =
     Some (''Cannot read properties of null (reading '' @ [CHR 0x27] @ ''versions'' @ [CHR 0x27] @ '')'')"
  by code_simp



text \<open>
  Claim C7.  The query string of the URL the script-run tool issues, read back as a
  parameter list, is the list the tool built: its names are among \<open>fields\<close>, \<open>alt\<close>,
  \<open>prettyPrint\<close> and \<open>quotaUser\<close> (\<open>fields\<close> and \<open>quotaUser\<close> only when supplied, \<open>alt\<close>
  and \<open>prettyPrint\<close> supplied or defaulted), and \<open>key\<close>, \<open>access_token\<close> and
  \<open>oauth_token\<close> are never among them.
\<close>

theorem script_run_query_display_options_only:
  "(\<forall>r \<in> set (fst (script_run_executeFunction a e)).
      script_run_url (engine_stack e) a = Inr (req_url r)) \<and>
   (\<forall>u. script_run_url st a = Inr u \<longrightarrow>
      (\<exists>ps. script_run_params st a = Inr ps \<and>
            url_query u = Some (searchParams_toString ps) \<and> searchParams u = ps) \<and>
      set (map fst (searchParams u)) \<subseteq> {''fields'', ''alt'', ''prettyPrint'', ''quotaUser''} \<and>
      ''key'' \<notin> set (map fst (searchParams u)) \<and>
      ''access_token'' \<notin> set (map fst (searchParams u)) \<and>
      ''oauth_token'' \<notin> set (map fst (searchParams u)) \<and>
      (''fields'' \<in> set (map fst (searchParams u)) \<longrightarrow> fields' a \<noteq> None) \<and>
      (''quotaUser'' \<in> set (map fst (searchParams u)) \<longrightarrow> quotaUser a \<noteq> None))"
proof (intro conjI allI impI)
  show "\<forall>r \<in> set (fst (script_run_executeFunction a e)).
      script_run_url (engine_stack e) a = Inr (req_url r)"
    by (auto simp: script_run_issued script_run_request_def split: sum.splits)
next
  fix u
  assume u: "script_run_url st a = Inr u"
  obtain ps where ps: "script_run_params st a = Inr ps"
    "url_query u = Some (searchParams_toString ps)" "searchParams u = ps"
    using script_run_url_searchParams[OF u] by blast
  have nn: "prettyPrint a \<noteq> Null"
    using ps(1) by (rule script_run_params_Inr(1))
  have ps_eq: "ps = append_if ''fields'' (fields' a)
          @ append_if ''alt'' (Some (case alt a of None \<Rightarrow> ''json'' | Some v \<Rightarrow> v))
          @ [(''prettyPrint'', bool_toString (case prettyPrint a of Given b \<Rightarrow> b | Null \<Rightarrow> True
                                                | Undefined \<Rightarrow> True))]
          @ append_if ''quotaUser'' (quotaUser a)"
    using script_run_params_value[OF nn, of st] ps(1) by simp
  have names: "set (map fst ps) \<subseteq> {''fields'', ''alt'', ''prettyPrint'', ''quotaUser''}"
    unfolding ps_eq by (auto simp: append_if_def split: option.splits if_splits)
  have supplied: "''fields'' \<in> set (map fst ps) \<longrightarrow> fields' a \<noteq> None"
    "''quotaUser'' \<in> set (map fst ps) \<longrightarrow> quotaUser a \<noteq> None"
    unfolding ps_eq
    by (cases "fields' a"; cases "quotaUser a";
        simp add: append_if_def split: option.splits if_splits)+
  from ps show "\<exists>ps. script_run_params st a = Inr ps \<and>
            url_query u = Some (searchParams_toString ps) \<and> searchParams u = ps"
    by blast
  from names ps(3) show "set (map fst (searchParams u)) \<subseteq>
      {''fields'', ''alt'', ''prettyPrint'', ''quotaUser''}"
    by simp
  from names ps(3) show "''key'' \<notin> set (map fst (searchParams u))"
    "''access_token'' \<notin> set (map fst (searchParams u))"
    "''oauth_token'' \<notin> set (map fst (searchParams u))"
    by auto
  from supplied ps(3) show "''fields'' \<in> set (map fst (searchParams u)) \<Longrightarrow> fields' a \<noteq> None"
    "''quotaUser'' \<in> set (map fst (searchParams u)) \<Longrightarrow> quotaUser a \<noteq> None"
    by auto
qed

theorem script_run_query_display_options_only_witness:
  "set (fst (script_run_executeFunction display_args (env_with (response_of 200 ''{}'')))) \<noteq> {} \<and>
   (\<exists>u. script_run_url [] display_args = Inr u \<and>
        map fst (searchParams u) = [''fields'', ''alt'', ''prettyPrint'', ''quotaUser''] \<and>
        ''key'' \<notin> set (map fst (searchParams u))) \<and>
   fields' display_args \<noteq> None \<and> key display_args \<noteq> None \<and>
   access_token display_args \<noteq> None \<and> oauth_token display_args \<noteq> None"
proof -
  let ?e = "env_with (response_of 200 ''{}'')"
  have nn: "prettyPrint display_args \<noteq> Null"
    by (simp add: display_args_def no_args_def)
  obtain u where u: "script_run_url [] display_args = Inr u"
    using script_run_url_not_null[OF nn] by blast
  have u': "script_run_url (engine_stack ?e) display_args = Inr u"
    using u by (rule script_run_url_stack)
  have issued: "set (fst (script_run_executeFunction display_args ?e)) \<noteq> {}"
    using u' by (simp add: script_run_issued env_with_def)
  have given: "fields' display_args \<noteq> None" "key display_args \<noteq> None"
    "access_token display_args \<noteq> None" "oauth_token display_args \<noteq> None"
    by (simp_all add: display_args_def no_args_def)
  have params: "script_run_params [] display_args =
      Inr [(''fields'', ''done''), (''alt'', ''json''), (''prettyPrint'', ''true''), (''quotaUser'', ''u1'')]"
    by code_simp
  note inst = script_run_query_display_options_only
    [where a = display_args and e = ?e and st = "[]", THEN conjunct2, THEN spec, THEN mp, OF u]
  from inst[THEN conjunct1] params
  have "searchParams u =
      [(''fields'', ''done''), (''alt'', ''json''), (''prettyPrint'', ''true''), (''quotaUser'', ''u1'')]"
    by auto
  then have names: "map fst (searchParams u) = [''fields'', ''alt'', ''prettyPrint'', ''quotaUser'']"
    by simp
  then have no_key: "''key'' \<notin> set (map fst (searchParams u))"
    by simp
  from u names no_key
  have "\<exists>u. script_run_url [] display_args = Inr u \<and>
        map fst (searchParams u) = [''fields'', ''alt'', ''prettyPrint'', ''quotaUser''] \<and>
        ''key'' \<notin> set (map fst (searchParams u))"
    by (intro exI[of _ u] conjI)
  with issued given show ?thesis by (intro conjI)
qed

text \<open>
  Claim C8, as amended.  For a \<open>scriptId\<close> made of letters, digits, \<open>-\<close> and \<open>_\<close> and a
  \<open>pageSize\<close> that is a number or omitted, once the token is obtained, the versions-list
  tool issues one request: a GET to the path \<open>/v1/projects/{scriptId}/versions\<close> whose
  query string, read back, is the list the tool built.  That list holds \<open>pageSize\<close>
  always (the text \<open>toString\<close> prints for the number, \<open>100\<close> by default), \<open>pageToken\<close>
  and \<open>fields\<close> when supplied and not empty, \<open>alt=json\<close> always, and \<open>prettyPrint=true\<close>
  when \<open>prettyPrint\<close> is true or omitted.
\<close>

theorem versions_list_request_shape:
  assumes "scriptId a = Some sid" and "\<forall>c\<in>set sid. id_char c"
    and "getOAuthAccessToken e = Inr token"
  shows "fst (versions_list_executeFunction a e) = [versions_list_request a token] \<and>
     req_method (versions_list_request a token) = ''GET'' \<and>
     pathname (req_url (versions_list_request a token)) = ''/v1/projects/'' @ sid @ ''/versions'' \<and>
     searchParams (req_url (versions_list_request a token)) = versions_list_params a \<and>
     (pageSize a = None \<longrightarrow> (''pageSize'', ''100'') \<in> set (versions_list_params a)) \<and>
     (\<forall>n. pageSize a = Some n \<longrightarrow> (''pageSize'', Number_toString n) \<in> set (versions_list_params a)) \<and>
     (\<forall>t. pageToken a = Some t \<and> t \<noteq> [] \<longrightarrow> (''pageToken'', t) \<in> set (versions_list_params a)) \<and>
     (\<forall>f. fields' a = Some f \<and> f \<noteq> [] \<longrightarrow> (''fields'', f) \<in> set (versions_list_params a)) \<and>
     (''alt'', ''json'') \<in> set (versions_list_params a) \<and>
     (prettyPrint a = Undefined \<or> prettyPrint a = Given True \<longrightarrow>
        (''prettyPrint'', ''true'') \<in> set (versions_list_params a))"
proof -
  let ?u = "new_URL baseUrl (''v1/projects/'' @ template_string (scriptId a) @ ''/versions'')"
  have u: "?u = \<lparr>url_origin = baseUrl, url_path = [''v1'', ''projects'', sid, ''versions''],
      url_query = None, url_fragment = None\<rparr>"
    using new_URL_versions[OF assms(2), of baseUrl] assms(1) by (simp add: template_string_def)
  have path: "pathname (versions_list_url a) = ''/v1/projects/'' @ sid @ ''/versions''"
    unfolding versions_list_url_def pathname_searchParams_append u
    by (simp add: pathname_def)
  have query: "searchParams (versions_list_url a) = versions_list_params a"
    unfolding versions_list_searchParams u by (simp add: searchParams_def)
  have pageSize: "pageSize a = None \<longrightarrow> (''pageSize'', ''100'') \<in> set (versions_list_params a)"
    "\<forall>n. pageSize a = Some n \<longrightarrow> (''pageSize'', Number_toString n) \<in> set (versions_list_params a)"
    and alt: "(''alt'', ''json'') \<in> set (versions_list_params a)"
    by (simp_all add: versions_list_params_def Let_def)
  have pageToken: "\<forall>t. pageToken a = Some t \<and> t \<noteq> [] \<longrightarrow>
      (''pageToken'', t) \<in> set (versions_list_params a)"
    and fields: "\<forall>f. fields' a = Some f \<and> f \<noteq> [] \<longrightarrow>
      (''fields'', f) \<in> set (versions_list_params a)"
    by (simp_all add: versions_list_params_def Let_def append_if_def)
  have pretty: "prettyPrint a = Undefined \<or> prettyPrint a = Given True \<longrightarrow>
      (''prettyPrint'', ''true'') \<in> set (versions_list_params a)"
    by (auto simp: versions_list_params_def Let_def bool_toString_def default_arg_def)
  have issued: "fst (versions_list_executeFunction a e) = [versions_list_request a token]"
    using assms(3) by (simp add: versions_list_issued)
  from path query pageSize alt pageToken fields pretty issued show ?thesis
    by (simp add: versions_list_request_def)
qed

theorem versions_list_request_shape_witness:
  "list_all id_char ''1i4qaE4iLJRAjcoirYxKjOmHf27U-kXjHBZBEJw_LxFgaJiwWf1REvSxH'' \<and>
   pathname (req_url (versions_list_request
       (no_args\<lparr>scriptId := Some ''1i4qaE4iLJRAjcoirYxKjOmHf27U-kXjHBZBEJw_LxFgaJiwWf1REvSxH'',
                pageSize := Some (Number ''1e+21''), pageToken := Some ''p2''\<rparr>) ''ya29.token'')) =
     ''/v1/projects/1i4qaE4iLJRAjcoirYxKjOmHf27U-kXjHBZBEJw_LxFgaJiwWf1REvSxH/versions'' \<and>
   (''pageSize'', ''1e+21'') \<in> set (versions_list_params
       (no_args\<lparr>scriptId := Some ''1i4qaE4iLJRAjcoirYxKjOmHf27U-kXjHBZBEJw_LxFgaJiwWf1REvSxH'',
                pageSize := Some (Number ''1e+21''), pageToken := Some ''p2''\<rparr>)) \<and>
   (''pageToken'', ''p2'') \<in> set (versions_list_params
       (no_args\<lparr>scriptId := Some ''1i4qaE4iLJRAjcoirYxKjOmHf27U-kXjHBZBEJw_LxFgaJiwWf1REvSxH'',
                pageSize := Some (Number ''1e+21''), pageToken := Some ''p2''\<rparr>)) \<and>
   (''prettyPrint'', ''true'') \<in> set (versions_list_params
       (no_args\<lparr>scriptId := Some ''1i4qaE4iLJRAjcoirYxKjOmHf27U-kXjHBZBEJw_LxFgaJiwWf1REvSxH'',
                pageSize := Some (Number ''1e+21''), pageToken := Some ''p2''\<rparr>)) \<and>
   url_query (versions_list_url
       (no_args\<lparr>scriptId := Some ''1i4qaE4iLJRAjcoirYxKjOmHf27U-kXjHBZBEJw_LxFgaJiwWf1REvSxH'',
                pageSize := Some (Number ''1e+21''), pageToken := Some ''p2''\<rparr>)) =
     Some ''pageSize=1e%2B21&pageToken=p2&alt=json&prettyPrint=true''"
proof -
  let ?sid = "''1i4qaE4iLJRAjcoirYxKjOmHf27U-kXjHBZBEJw_LxFgaJiwWf1REvSxH''"
  let ?a = "no_args\<lparr>scriptId := Some ?sid, pageSize := Some (Number ''1e+21''),
                   pageToken := Some ''p2''\<rparr>"
  let ?e = "env_with (response_of 200 ''{}'')"
  have h1: "scriptId ?a = Some ?sid" by (simp add: no_args_def)
  have all: "list_all id_char ?sid" by code_simp
  then have h2: "\<forall>c\<in>set ?sid. id_char c" by (simp only: list_all_iff)
  have h3: "getOAuthAccessToken ?e = Inr ''ya29.token''" by (simp add: env_with_def)
  have h4: "pageToken ?a = Some ''p2''" "prettyPrint ?a = Undefined"
    "pageSize ?a = Some (Number ''1e+21'')"
    by (simp_all add: no_args_def)
  have q: "url_query (versions_list_url ?a) =
      Some ''pageSize=1e%2B21&pageToken=p2&alt=json&prettyPrint=true''"
    by code_simp
  from versions_list_request_shape[OF h1 h2 h3] all h4 q show ?thesis
    by simp
qed

text \<open>
  Claim C8 as stated fails: \<open>prettyPrint = false\<close> is not carried (the query string then
  has \<open>pageSize\<close> and \<open>alt\<close> only), an empty \<open>pageToken\<close> is not carried either, and
  for the script id \<open>a?b\<close> the path of the URL is \<open>/v1/projects/a\<close>.
\<close>

theorem versions_list_request_counterexample:
  "map fst (searchParams (versions_list_url
       (no_args\<lparr>scriptId := Some ''X'', prettyPrint := Given False\<rparr>))) = [''pageSize'', ''alt''] \<and>
   map fst (searchParams (versions_list_url
       (no_args\<lparr>scriptId := Some ''X'', pageToken := Some []\<rparr>))) =
     [''pageSize'', ''alt'', ''prettyPrint''] \<and>
   pathname (versions_list_url (no_args\<lparr>scriptId := Some ''a?b''\<rparr>)) = ''/v1/projects/a'' \<and>
   pathname (versions_list_url (no_args\<lparr>scriptId := Some ''a?b''\<rparr>)) \<noteq>
     ''/v1/projects/'' @ ''a?b'' @ ''/versions''"
  by code_simp

text \<open>
  Claim C9.  Two script-run calls that differ only in \<open>key\<close>, \<open>access_token\<close> and
  \<open>oauth_token\<close> issue the same requests (URL, method, headers, body) and return the same
  result.
\<close>

theorem script_run_ignores_auth_arguments:
  "script_run_executeFunction (a\<lparr>key := k, access_token := t, oauth_token := ot\<rparr>) e =
     script_run_executeFunction a e"
  by (simp add: script_run_executeFunction_def url_ignore_auth try_ignore_auth envelope_ignore_auth
      split: sum.splits prod.splits)

text \<open>
  Claim C10, as amended.  When the versions-list tool gets a response that is not ok and
  whose body is not JSON, it returns the error envelope, and the message is
  \<open>API Error (<status>): <text>\<close> where the text is the raw body, or \<open>Unknown error\<close> when
  the body is empty.
\<close>

theorem versions_list_non_json_error_body:
  assumes "getOAuthAccessToken e = Inr token"
    and "fetch e (versions_list_request a token) = Inr r"
    and "\<not> ok r"
    and "resp_body r = Inr body"
    and "JSON_parse e body = Inl parseError"
  shows "\<exists>v. snd (versions_list_executeFunction a e) = Inr (Envelope v) \<and> error v \<and>
     message v = ''API Error ('' @ nat_toString (resp_status r) @ ''): '' @
                   (if body = [] then ''Unknown error'' else body)"
proof -
  have "api_error_message e (resp_status r) (JObj [(''message'', JStr body)]) =
      Inr (''API Error ('' @ nat_toString (resp_status r) @ ''): '' @
             (if body = [] then ''Unknown error'' else body))"
    by (simp add: api_error_message_def and_then_def opt_chain_def)
  with assms show ?thesis
    unfolding versions_list_returned versions_list_try_def and_then_def error_envelope_def
      new_Error_def
    by (simp add: Let_def)
qed

theorem versions_list_non_json_error_body_witness:
  "\<not> ok (response_of 502 ''<html>Bad Gateway</html>'') \<and>
   (\<exists>v. snd (versions_list_executeFunction round_trip_args
              (env_with (response_of 502 ''<html>Bad Gateway</html>''))) = Inr (Envelope v) \<and>
        error v \<and> message v = ''API Error (502): <html>Bad Gateway</html>'')"
proof -
  let ?r = "response_of 502 ''<html>Bad Gateway</html>''"
  let ?e = "env_with ?r"
  have h1: "getOAuthAccessToken ?e = Inr ''ya29.token''" by (simp add: env_with_def)
  have h2: "fetch ?e (versions_list_request round_trip_args ''ya29.token'') = Inr ?r"
    by (simp add: env_with_def)
  have h3: "\<not> ok ?r" by (simp add: ok_def response_of_def)
  have h4: "resp_body ?r = Inr ''<html>Bad Gateway</html>''" by (simp add: response_of_def)
  have h5: "JSON_parse ?e ''<html>Bad Gateway</html>'' =
      Inl \<lparr>err_name = ''SyntaxError'', err_message = ''Unexpected token < in JSON at position 0'',
           err_stack = ''SyntaxError: Unexpected token < in JSON at position 0''\<rparr>"
    by (simp add: env_with_def JSON_parse_sample_def)
  have n: "nat_toString (resp_status ?r) = ''502''" by code_simp
  from versions_list_non_json_error_body[OF h1 h2 h3 h4 h5] h3 n show ?thesis
    by simp
qed

text \<open>
  Claim C10 as stated fails on an empty body: the text after the status is
  \<open>Unknown error\<close>, not the (empty) raw body.
\<close>

theorem versions_list_empty_error_body_counterexample:
  "\<not> ok (response_of 502 []) \<and>
   JSON_parse (env_with (response_of 502 [])) [] =
     Inl \<lparr>err_name = ''SyntaxError'', err_message = ''Unexpected end of JSON input'',
          err_stack = ''SyntaxError: Unexpected end of JSON input''\<rparr> \<and>
   returned_message (versions_list_executeFunction round_trip_args (env_with (response_of 502 []))) =
     Some ''API Error (502): Unknown error'' \<and>
   returned_message (versions_list_executeFunction round_trip_args (env_with (response_of 502 []))) \<noteq>
     Some (''API Error (502): '' @ [])"
  by code_simp


end
